theory Spec2Isabelle
  imports Main "HOL-Library.Sublist"
begin

section \<open>JavaScript string operations used by the handlers\<close>

text \<open>
  The repository has two copies of one Express application: \<^verbatim>\<open>src/index.ts\<close>, and the
  file whose first line names it \<^verbatim>\<open>api/index.ts\<close> (kept as \<^verbatim>\<open>unnamed/part_000\<close>). Their
  middleware \<^verbatim>\<open>verifyToken\<close> is the same text; their handlers of
  \<^verbatim>\<open>GET /summary/:mentorId/:tutorId\<close> ask the provider for different schemas.

  The handlers work on JavaScript strings with
  \<^verbatim>\<open>startsWith\<close>, \<^verbatim>\<open>split\<close>, \<^verbatim>\<open>indexOf\<close>, \<^verbatim>\<open>lastIndexOf\<close>, \<^verbatim>\<open>substring\<close>, \<^verbatim>\<open>join\<close> and
  template literals. A text is modelled as a \<^typ>\<open>string\<close>, one \<^typ>\<open>char\<close> per unit of the
  text. Every search the handlers make is for ASCII text (\<^verbatim>\<open>"Bearer "\<close>, \<^verbatim>\<open>"{"\<close>, \<^verbatim>\<open>"}"\<close>), and
  the indices they compute are only handed back to \<^verbatim>\<open>substring\<close>, so nothing depends on how
  a character beyond ASCII is counted. Indices are \<^typ>\<open>int\<close>, with \<open>- 1\<close> for "not found",
  as in JavaScript.
\<close>

definition indexOf :: "string \<Rightarrow> char \<Rightarrow> int" where
  "indexOf s c =
     (if c \<in> set s then int (length (takeWhile (\<lambda>x. x \<noteq> c) s)) else - 1)"

definition lastIndexOf :: "string \<Rightarrow> char \<Rightarrow> int" where
  "lastIndexOf s c =
     (if c \<in> set s
      then int (length s) - 1 - int (length (takeWhile (\<lambda>x. x \<noteq> c) (rev s)))
      else - 1)"

text \<open>
  \<^verbatim>\<open>String.prototype.substring(start, end)\<close>: both arguments are clamped to
  \<open>[0, length]\<close>, and they are swapped when the first exceeds the second.
\<close>

definition substring :: "string \<Rightarrow> int \<Rightarrow> int \<Rightarrow> string" where
  "substring s start end' =
     (let len = int (length s);
          finalStart = min (max start 0) len;
          finalEnd = min (max end' 0) len;
          from = min finalStart finalEnd;
          to = max finalStart finalEnd
      in take (nat (to - from)) (drop (nat from) s))"

definition startsWith :: "string \<Rightarrow> string \<Rightarrow> bool" where
  "startsWith s p = (take (length p) s = p)"

text \<open>
  \<^verbatim>\<open>String.prototype.split(sep)\<close> with a string separator: the pieces between the
  occurrences of \<open>sep\<close>, found from the left without overlap; the empty separator
  splits into single units.
\<close>

function split_from :: "string \<Rightarrow> string \<Rightarrow> string \<Rightarrow> string list" where
  "split_from sep acc [] = [acc]"
| "split_from sep acc (c # cs) =
     (if sep \<noteq> [] \<and> startsWith (c # cs) sep
      then acc # split_from sep [] (drop (length sep) (c # cs))
      else split_from sep (acc @ [c]) cs)"
  by pat_completeness auto
termination
  by (relation "measure (\<lambda>(sep, acc, s). length s)") auto

definition split :: "string \<Rightarrow> string \<Rightarrow> string list" where
  "split s sep = (if sep = [] then map (\<lambda>c. [c]) s else split_from sep [] s)"

text \<open>Reading an array element: \<^verbatim>\<open>xs[i]\<close> is \<^verbatim>\<open>undefined\<close> out of range.\<close>

definition element :: "'a list \<Rightarrow> nat \<Rightarrow> 'a option" where
  "element xs i = (if i < length xs then Some (xs ! i) else None)"

text \<open>\<^verbatim>\<open>Array.prototype.join(sep)\<close> on an array of strings.\<close>

fun join :: "string list \<Rightarrow> string \<Rightarrow> string" where
  "join [] sep = []"
| "join [x] sep = x"
| "join (x # y # ys) sep = x @ sep @ join (y # ys) sep"

section \<open>The extraction step\<close>

text \<open>
  What the \<^verbatim>\<open>try\<close> block of the \<^verbatim>\<open>/summary\<close> handler can throw. The source throws plain
  \<^verbatim>\<open>Error\<close> objects and lets the exceptions of its collaborators pass; the constructors
  name each origin:
  \<^item> \<open>StoreFailure e\<close>: building the collection reference or \<^verbatim>\<open>incidentsRef.get()\<close> threw \<open>e\<close>;
  \<^item> \<open>ProviderFailure e\<close>: \<^verbatim>\<open>ai.models.generateContent\<close> threw \<open>e\<close>;
  \<^item> \<open>NoTextResponse\<close>: \<^verbatim>\<open>throw new Error("No text response from AI.")\<close>;
  \<^item> \<open>NoJsonFound\<close>: \<^verbatim>\<open>throw new Error("AI response did not contain valid JSON.")\<close>;
  \<^item> \<open>MalformedJson e\<close>: \<^verbatim>\<open>JSON.parse\<close> threw \<open>e\<close>.
  An exception of a collaborator is represented by its message.
\<close>

datatype error =
    StoreFailure string
  | ProviderFailure string
  | NoTextResponse
  | NoJsonFound
  | MalformedJson string

text \<open>
  Lines 173-184 of \<^verbatim>\<open>src/index.ts\<close> (165-176 of \<^verbatim>\<open>api/index.ts\<close>, the same text).
  \<^verbatim>\<open>JSON.parse\<close> is a builtin of the runtime and a parameter here: it maps a text to the
  parsed value (\<open>Inr\<close>) or to the exception it throws (\<open>Inl\<close>).
\<close>

definition extract_json :: "(string \<Rightarrow> string + 'j) \<Rightarrow> string \<Rightarrow> error + 'j" where
  "extract_json JSON_parse jsonString =
     (let startIndex = indexOf jsonString (CHR ''{'');
          endIndex = lastIndexOf jsonString (CHR ''}'')
      in if startIndex = - 1 \<or> endIndex = - 1 then Inl NoJsonFound
         else
           let extractedJson = substring jsonString startIndex (endIndex + 1)
           in case JSON_parse extractedJson of
                Inl e \<Rightarrow> Inl (MalformedJson e)
              | Inr summaryJson \<Rightarrow> Inr summaryJson)"

section \<open>A reference JSON parser\<close>

text \<open>
  The theorems about the handlers hold for every function in the place of
  \<^verbatim>\<open>JSON.parse\<close>. To run the handlers on concrete texts, \<open>json_parse\<close> is a recursive
  descent parser for the JSON grammar (RFC 8259, which \<^verbatim>\<open>JSON.parse\<close> accepts exactly):
  it returns the syntax tree of the text, numbers and strings kept as they are written
  (a string without its quotes, its escapes not decoded), members of an object in the
  order of the text. A number whose nearest double is infinite is \<open>JInfinity\<close> or
  \<open>JNegInfinity\<close>, as the value \<^verbatim>\<open>JSON.parse\<close> returns for it is.
\<close>

datatype json =
    JNull
  | JBool bool
  | JNumber string
  | JInfinity
  | JNegInfinity
  | JString string
  | JArray "json list"
  | JObject "(string \<times> json) list"

definition is_ws :: "char \<Rightarrow> bool" where
  "is_ws c = (c = CHR '' '' \<or> c = CHR 0x09 \<or> c = CHR 0x0A \<or> c = CHR 0x0D)"

definition skip_ws :: "string \<Rightarrow> string" where
  "skip_ws s = dropWhile is_ws s"

definition is_digit :: "char \<Rightarrow> bool" where
  "is_digit c = (c \<in> set ''0123456789'')"

definition is_hex :: "char \<Rightarrow> bool" where
  "is_hex c = (c \<in> set ''0123456789abcdefABCDEF'')"

text \<open>
  The text of a string after its opening quote: up to the closing quote, with no raw
  control character, a backslash only before one of \<^verbatim>\<open>" \ / b f n r t\<close> or before
  \<^verbatim>\<open>u\<close> and four hexadecimal digits.
\<close>

fun scan_string :: "string \<Rightarrow> (string \<times> string) option" where
  "scan_string [] = None"
| "scan_string [c] = (if c = CHR 0x22 then Some ([], []) else None)"
| "scan_string (c # e # cs) =
     (if c = CHR 0x22 then Some ([], e # cs)
      else if c = CHR 0x5C then
        (if e \<in> set [CHR 0x22, CHR 0x5C, CHR ''/'', CHR ''b'', CHR ''f'', CHR ''n'', CHR ''r'', CHR ''t'']
            \<or> (e = CHR ''u'' \<and> 4 \<le> length cs \<and> list_all is_hex (take 4 cs))
         then (case scan_string cs of
                 None \<Rightarrow> None
               | Some (t, r) \<Rightarrow> Some (c # e # t, r))
         else None)
      else if (of_char c :: nat) < 0x20 then None
      else (case scan_string (e # cs) of
              None \<Rightarrow> None
            | Some (t, r) \<Rightarrow> Some (c # t, r)))"

text \<open>
  A number: an optional minus, \<^verbatim>\<open>0\<close> or a digit sequence without leading zero, an
  optional fraction, an optional exponent.
\<close>

definition scan_digits :: "string \<Rightarrow> (string \<times> string) option" where
  "scan_digits s =
     (let ds = takeWhile is_digit s
      in if ds = [] then None else Some (ds, dropWhile is_digit s))"

definition scan_int :: "string \<Rightarrow> (string \<times> string) option" where
  "scan_int s =
     (case s of
        [] \<Rightarrow> None
      | c # cs \<Rightarrow>
          if c = CHR ''0'' then Some ([c], cs)
          else scan_digits s)"

definition scan_frac :: "string \<Rightarrow> (string \<times> string) option" where
  "scan_frac s =
     (case s of
        [] \<Rightarrow> Some ([], [])
      | c # cs \<Rightarrow>
          if c = CHR ''.'' then
            (case scan_digits cs of
               None \<Rightarrow> None
             | Some (ds, r) \<Rightarrow> Some (c # ds, r))
          else Some ([], s))"

definition scan_exp :: "string \<Rightarrow> (string \<times> string) option" where
  "scan_exp s =
     (case s of
        [] \<Rightarrow> Some ([], [])
      | c # cs \<Rightarrow>
          if c = CHR ''e'' \<or> c = CHR ''E'' then
            (case cs of
               [] \<Rightarrow> None
             | d # ds \<Rightarrow>
                 if d = CHR ''+'' \<or> d = CHR ''-'' then
                   (case scan_digits ds of
                      None \<Rightarrow> None
                    | Some (xs, r) \<Rightarrow> Some (c # d # xs, r))
                 else
                   (case scan_digits cs of
                      None \<Rightarrow> None
                    | Some (xs, r) \<Rightarrow> Some (c # xs, r)))
          else Some ([], s))"

definition scan_number :: "string \<Rightarrow> (string \<times> string) option" where
  "scan_number s =
     (let (sign, s1) = (case s of
                          [] \<Rightarrow> ([], [])
                        | c # cs \<Rightarrow> if c = CHR ''-'' then ([c], cs) else ([], s))
      in case scan_int s1 of
           None \<Rightarrow> None
         | Some (i, s2) \<Rightarrow>
             (case scan_frac s2 of
                None \<Rightarrow> None
              | Some (f, s3) \<Rightarrow>
                  (case scan_exp s3 of
                     None \<Rightarrow> None
                   | Some (e, s4) \<Rightarrow> Some (sign @ i @ f @ e, s4))))"

text \<open>
  The double nearest to a decimal is infinite exactly when the magnitude of the decimal
  is at least \<open>2 ^ 1024 - 2 ^ 970\<close>, half way between the largest double and \<open>2 ^ 1024\<close>.
  \<open>overflows\<close> reads the digits and the exponent of a number as \<open>scan_number\<close> returns it
  and compares in integers.
\<close>

definition digits_int :: "string \<Rightarrow> int" where
  "digits_int ds = foldl (\<lambda>n c. 10 * n + (of_char c - 48)) 0 ds"

definition overflows :: "string \<Rightarrow> bool" where
  "overflows t =
     (let unsigned = (if startsWith t ''-'' then tl t else t);
          intPart = takeWhile is_digit unsigned;
          afterInt = dropWhile is_digit unsigned;
          hasFrac = startsWith afterInt ''.'';
          fracPart = (if hasFrac then takeWhile is_digit (tl afterInt) else []);
          afterFrac = (if hasFrac then dropWhile is_digit (tl afterInt) else afterInt);
          exponent =
            (case afterFrac of
               [] \<Rightarrow> 0
             | e # ds \<Rightarrow>
                 if startsWith ds ''-'' then - digits_int (tl ds)
                 else if startsWith ds ''+'' then digits_int (tl ds)
                 else digits_int ds);
          mantissa = digits_int (intPart @ fracPart);
          k = exponent - int (length fracPart)
      in if 0 \<le> k then 2 ^ 1024 - 2 ^ 970 \<le> mantissa * 10 ^ nat k
         else (2 ^ 1024 - 2 ^ 970) * 10 ^ nat (- k) \<le> mantissa)"

definition number_value :: "string \<Rightarrow> json" where
  "number_value t =
     (if overflows t then (if startsWith t ''-'' then JNegInfinity else JInfinity)
      else JNumber t)"

text \<open>
  Values, array elements and object members. The first argument bounds the number of
  nested calls; each call reads at least one character before the second call below
  it, so \<open>2 * length s + 2\<close> is enough for a text \<open>s\<close>.
\<close>

fun parse_value :: "nat \<Rightarrow> string \<Rightarrow> (json \<times> string) option"
  and parse_elements :: "nat \<Rightarrow> string \<Rightarrow> (json list \<times> string) option"
  and parse_members :: "nat \<Rightarrow> string \<Rightarrow> ((string \<times> json) list \<times> string) option"
where
  "parse_value 0 s = None"
| "parse_value (Suc n) s =
     (case skip_ws s of
        [] \<Rightarrow> None
      | c # cs \<Rightarrow>
          if c = CHR ''{'' then
            (case skip_ws cs of
               [] \<Rightarrow> None
             | d # ds \<Rightarrow>
                 if d = CHR ''}'' then Some (JObject [], ds)
                 else (case parse_members n cs of
                         None \<Rightarrow> None
                       | Some (ms, r) \<Rightarrow> Some (JObject ms, r)))
          else if c = CHR ''['' then
            (case skip_ws cs of
               [] \<Rightarrow> None
             | d # ds \<Rightarrow>
                 if d = CHR '']'' then Some (JArray [], ds)
                 else (case parse_elements n cs of
                         None \<Rightarrow> None
                       | Some (vs, r) \<Rightarrow> Some (JArray vs, r)))
          else if c = CHR 0x22 then
            (case scan_string cs of
               None \<Rightarrow> None
             | Some (t, r) \<Rightarrow> Some (JString t, r))
          else if startsWith (c # cs) ''true'' then Some (JBool True, drop 4 (c # cs))
          else if startsWith (c # cs) ''false'' then Some (JBool False, drop 5 (c # cs))
          else if startsWith (c # cs) ''null'' then Some (JNull, drop 4 (c # cs))
          else (case scan_number (c # cs) of
                  None \<Rightarrow> None
                | Some (t, r) \<Rightarrow> Some (number_value t, r)))"
| "parse_elements 0 s = None"
| "parse_elements (Suc n) s =
     (case parse_value n s of
        None \<Rightarrow> None
      | Some (v, r) \<Rightarrow>
          (case skip_ws r of
             [] \<Rightarrow> None
           | c # cs \<Rightarrow>
               if c = CHR '','' then
                 (case parse_elements n cs of
                    None \<Rightarrow> None
                  | Some (vs, r') \<Rightarrow> Some (v # vs, r'))
               else if c = CHR '']'' then Some ([v], cs)
               else None))"
| "parse_members 0 s = None"
| "parse_members (Suc n) s =
     (case skip_ws s of
        [] \<Rightarrow> None
      | q # s1 \<Rightarrow>
          if q \<noteq> CHR 0x22 then None
          else
            (case scan_string s1 of
               None \<Rightarrow> None
             | Some (k, s2) \<Rightarrow>
                 (case skip_ws s2 of
                    [] \<Rightarrow> None
                  | colon # s3 \<Rightarrow>
                      if colon \<noteq> CHR '':'' then None
                      else
                        (case parse_value n s3 of
                           None \<Rightarrow> None
                         | Some (v, s4) \<Rightarrow>
                             (case skip_ws s4 of
                                [] \<Rightarrow> None
                              | c # cs \<Rightarrow>
                                  if c = CHR '','' then
                                    (case parse_members n cs of
                                       None \<Rightarrow> None
                                     | Some (ms, r) \<Rightarrow> Some ((k, v) # ms, r))
                                  else if c = CHR ''}'' then Some ([(k, v)], cs)
                                  else None)))))"

definition json_parse :: "string \<Rightarrow> string + json" where
  "json_parse s =
     (case parse_value (2 * length s + 2) s of
        None \<Rightarrow> Inl ''SyntaxError''
      | Some (v, r) \<Rightarrow> if skip_ws r = [] then Inr v else Inl ''SyntaxError'')"

text \<open>
  The reference for \<^verbatim>\<open>JSON.stringify\<close>, on the same syntax trees: no white space, a
  number and a string written as they were read, the members of an object in their
  order, and \<^verbatim>\<open>null\<close> for a number that is not finite, as \<^verbatim>\<open>JSON.stringify\<close> writes it.
\<close>

fun json_stringify :: "json \<Rightarrow> string"
  and stringify_elements :: "json list \<Rightarrow> string list"
  and stringify_members :: "(string \<times> json) list \<Rightarrow> string list"
where
  "json_stringify JNull = ''null''"
| "json_stringify (JBool b) = (if b then ''true'' else ''false'')"
| "json_stringify (JNumber t) = t"
| "json_stringify JInfinity = ''null''"
| "json_stringify JNegInfinity = ''null''"
| "json_stringify (JString t) = [CHR 0x22] @ t @ [CHR 0x22]"
| "json_stringify (JArray vs) = ''['' @ join (stringify_elements vs) '','' @ '']''"
| "json_stringify (JObject ms) = ''{'' @ join (stringify_members ms) '','' @ ''}''"
| "stringify_elements [] = []"
| "stringify_elements (v # vs) = json_stringify v # stringify_elements vs"
| "stringify_members [] = []"
| "stringify_members ((k, v) # ms) =
     ([CHR 0x22] @ k @ [CHR 0x22] @ '':'' @ json_stringify v) # stringify_members ms"

section \<open>The data of a request\<close>

text \<open>
  A document of the \<^verbatim>\<open>incidents\<close> collection, as the handlers read it: \<^verbatim>\<open>data.date\<close> is
  absent or a timestamp of the store, \<^verbatim>\<open>data.description\<close> a text (the data model of the
  store; a document of another shape is outside the model). The type \<open>'ts\<close> of timestamps
  is a parameter, and so is \<^verbatim>\<open>date.toDate().toISOString()\<close>, the ISO-8601 rendering of
  one.
\<close>

record 'ts incident =
  date :: "'ts option"
  description :: string

text \<open>
  \<^verbatim>\<open>res.json(v)\<close> and \<^verbatim>\<open>res.send(v)\<close> send the text \<^verbatim>\<open>JSON.stringify(v)\<close>. A response body
  is what the client is sent: for an object or array literal of the source the literal
  itself (its text is fixed), for the value \<^verbatim>\<open>JSON.parse\<close> returned the text
  \<^verbatim>\<open>JSON.stringify\<close> makes of it (\<open>Serialized\<close>).
\<close>

datatype jsvalue =
    Str string
  | Arr "jsvalue list"
  | Obj "(string \<times> jsvalue) list"
  | Serialized string

record response =
  status :: nat
  body :: jsvalue

text \<open>The \<^verbatim>\<open>jsonSchema\<close> objects sent to the provider as \<^verbatim>\<open>responseSchema\<close>.\<close>

datatype schemaType = OBJECT | STRING | ARRAY

datatype schema =
  Schema (type: schemaType) (properties: "(string \<times> schema) list")
    (items: "schema option") (required: "string list")

text \<open>
  The argument of \<^verbatim>\<open>ai.models.generateContent\<close>: \<^verbatim>\<open>model\<close>, and the one element of
  \<^verbatim>\<open>contents\<close> (its \<^verbatim>\<open>role\<close> and the \<^verbatim>\<open>text\<close> of its one part), and \<^verbatim>\<open>generationConfig\<close>.
\<close>

record genAIRequest =
  model :: string
  role :: string
  parts_text :: string
  responseMimeType :: string
  responseSchema :: schema

datatype decodedIdToken = DecodedIdToken (uid: string)

text \<open>
  The collaborators of the handlers. Each maps its argument to its result (\<open>Inr\<close>) or to
  the message of the exception it throws (\<open>Inl\<close>):
  \<^item> \<open>verifyIdToken\<close>: \<^verbatim>\<open>admin.auth().verifyIdToken(idToken)\<close>;
  \<^item> \<open>incidents_get\<close>: the read of
    \<^verbatim>\<open>db.collection("mentors").doc(mentorId).collection("tutors").doc(tutorId).collection("incidents")\<close>,
    the documents of the snapshot;
  \<^item> \<open>generateContent\<close>: \<^verbatim>\<open>ai.models.generateContent(request)\<close>, the \<^verbatim>\<open>text\<close> of the result,
    which may be \<^verbatim>\<open>undefined\<close>;
  \<^item> \<open>JSON_parse\<close>: \<^verbatim>\<open>JSON.parse\<close>;
  \<^item> \<open>JSON_stringify\<close>: \<^verbatim>\<open>JSON.stringify\<close>, which \<^verbatim>\<open>res.json\<close> applies to its argument (it does
    not throw on a value \<^verbatim>\<open>JSON.parse\<close> returned);
  \<^item> \<open>toISOString\<close>: \<^verbatim>\<open>date.toDate().toISOString()\<close>.
\<close>

record ('ts, 'j) env =
  verifyIdToken :: "string option \<Rightarrow> string + decodedIdToken"
  incidents_get :: "string \<Rightarrow> string \<Rightarrow> string + 'ts incident list"
  generateContent :: "genAIRequest \<Rightarrow> string + string option"
  JSON_parse :: "string \<Rightarrow> string + 'j"
  JSON_stringify :: "'j \<Rightarrow> string"
  toISOString :: "'ts \<Rightarrow> string"

text \<open>The calls a request makes to the collaborators that are services, in order.\<close>

datatype call =
    is_VerifyIdToken: VerifyIdToken "string option"
  | is_IncidentsGet: IncidentsGet string string
  | is_GenerateContent: GenerateContent genAIRequest

text \<open>
  \<^verbatim>\<open>AuthRequest\<close>: the \<^verbatim>\<open>Authorization\<close> header (absent or a text), the two path
  parameters, and \<^verbatim>\<open>user\<close>, which \<^verbatim>\<open>verifyToken\<close> sets.
\<close>

record authRequest =
  authorization :: "string option"
  mentorId :: string
  tutorId :: string
  user :: "decodedIdToken option"

section \<open>The middleware \<^verbatim>\<open>verifyToken\<close>\<close>

text \<open>
  Lines 42-62 of both files. The result is the response sent (\<open>Inl\<close>) or the request
  handed to \<^verbatim>\<open>next()\<close> (\<open>Inr\<close>), with the calls made. \<^verbatim>\<open>!authHeader\<close> holds for an absent
  header and for the empty one.
\<close>

definition idToken :: "string \<Rightarrow> string option" where
  "idToken authHeader = element (split authHeader ''Bearer '') 1"

definition verifyToken ::
  "('ts, 'j) env \<Rightarrow> authRequest \<Rightarrow> (response + authRequest) \<times> call list" where
  "verifyToken env req =
     (let authHeader = authorization req;
          unauthorized =
            \<lparr>status = 401, body = Obj [(''error'', Str ''Unauthorized: No token provided.'')]\<rparr>
      in case authHeader of
           None \<Rightarrow> (Inl unauthorized, [])
         | Some h \<Rightarrow>
             if h = [] \<or> \<not> startsWith h ''Bearer '' then (Inl unauthorized, [])
             else
               case verifyIdToken env (idToken h) of
                 Inl e \<Rightarrow>
                   (Inl \<lparr>status = 403, body = Obj [(''error'', Str ''Forbidden: Invalid token.'')]\<rparr>,
                    [VerifyIdToken (idToken h)])
               | Inr decodedToken \<Rightarrow>
                   (Inr (req\<lparr>user := Some decodedToken\<rparr>), [VerifyIdToken (idToken h)]))"

section \<open>The prompt\<close>

text \<open>The callback of \<^verbatim>\<open>snapshot.docs.map\<close>, the same in both files.\<close>

definition incidentText :: "('ts \<Rightarrow> string) \<Rightarrow> 'ts incident \<Rightarrow> string" where
  "incidentText toISO data =
     (let date' = (case date data of None \<Rightarrow> ''unknown date'' | Some d \<Rightarrow> toISO d)
      in date' @ '': '' @ description data)"

text \<open>
  The template literal of \<^verbatim>\<open>src/index.ts\<close>, lines 121-148: its text up to the
  interpolation \<^verbatim>\<open>${incidentTexts.join("\n")}\<close>, then the literal itself.
\<close>

definition scores_template :: string where
  \<open>scores_template =
     ''\<newline>'' @
     ''You are an educational performance assistant. Your task is to analyze a list of incidents for a tutor and provide a holistic performance summary.\<newline>'' @
     ''Analyze ALL incidents AS A WHOLE. Do NOT summarize each incident individually.\<newline>'' @
     ''\<newline>'' @
     ''Respond ONLY with a JSON object.\<newline>'' @
     ''\<newline>'' @
     ''You MUST provide a detailed performance score for EACH of the 7 criteria.\<newline>'' @
     ''Use a 1-5 scale:\<newline>'' @
     ''1 = Poor, 2 = Needs Improvement, 3 = Neutral / Insufficient Information, 4 = Good, 5 = Excellent\<newline>'' @
     ''**CRITICAL RULE:** If there is NO INFORMATION, score it as 3 (Neutral) and justify with 'Insufficient information.'\<newline>'' @
     ''\<newline>'' @
     ''Your response MUST match this JSON schema:\<newline>'' @
     ''{\<newline>'' @
     ''  "summary": "Your 2-3 sentence summary here.",\<newline>'' @
     ''  "scores": {\<newline>'' @
     ''    "Suggests New Ideas": { "score": 1-5, "justification": "Your justification." },\<newline>'' @
     ''    "Collaboration": { "score": 1-5, "justification": "Your justification." },\<newline>'' @
     ''    "Responsiveness": { "score": 1-5, "justification": "Your justification." },\<newline>'' @
     ''    "Adaptability": { "score": 1-5, "justification": "Your justification." },\<newline>'' @
     ''    "Feedback": { "score": 1-5, "justification": "Your justification." },\<newline>'' @
     ''    "Attendance": { "score": 1-5, "justification": "Your justification." },\<newline>'' @
     ''    "Professionalism": { "score": 1-5, "justification": "Your justification." }\<newline>'' @
     ''  }\<newline>'' @
     ''}\<newline>'' @
     ''\<newline>'' @
     ''Here are the incidents:\<newline>''\<close>

definition scores_prompt :: "string list \<Rightarrow> string" where
  "scores_prompt incidentTexts =
     scores_template @ join incidentTexts ''\<newline>'' @ ''\<newline>''"

text \<open>The template literal of \<^verbatim>\<open>api/index.ts\<close>, lines 129-140, in the same two steps.\<close>

definition patterns_template :: string where
  \<open>patterns_template =
     ''\<newline>'' @
     ''You are an educational performance assistant. Your task is to analyze a list of incidents for a tutor and provide a holistic performance summary.\<newline>'' @
     ''Analyze ALL incidents AS A WHOLE. You MUST NOT summarize each incident individually.\<newline>'' @
     ''Respond ONLY with a JSON object matching this schema:\<newline>'' @
     ''{\<newline>'' @
     ''  "summary": "A 2-3 sentence overall summary of performance.",\<newline>'' @
     ''  "patterns": ["A list of key behavioral patterns (strengths or weaknesses)."],\<newline>'' @
     ''  "suggestions": ["A list of actionable suggestions for improvement (if any)."]\<newline>'' @
     ''}\<newline>'' @
     ''Here are the incidents:\<newline>''\<close>

definition patterns_prompt :: "string list \<Rightarrow> string" where
  "patterns_prompt incidentTexts =
     patterns_template @ join incidentTexts ''\<newline>'' @ ''\<newline>''"

definition scores_jsonSchema :: schema where
  "scores_jsonSchema =
     Schema OBJECT
       [(''summary'', Schema STRING [] None []),
        (''scores'', Schema OBJECT [] None [])]
       None
       [''summary'', ''scores'']"

definition patterns_jsonSchema :: schema where
  "patterns_jsonSchema =
     Schema OBJECT
       [(''summary'', Schema STRING [] None []),
        (''patterns'', Schema ARRAY [] (Some (Schema STRING [] None [])) []),
        (''suggestions'', Schema ARRAY [] (Some (Schema STRING [] None [])) [])]
       None
       [''summary'', ''patterns'', ''suggestions'']"

definition genAIRequest :: "string \<Rightarrow> schema \<Rightarrow> genAIRequest" where
  "genAIRequest prompt jsonSchema =
     \<lparr>model = ''gemini-2.5-flash'', role = ''user'', parts_text = prompt,
      responseMimeType = ''application/json'', responseSchema = jsonSchema\<rparr>"

section \<open>The handlers of \<^verbatim>\<open>GET /summary/:mentorId/:tutorId\<close>\<close>

text \<open>
  The \<^verbatim>\<open>try\<close> block of the handler of \<^verbatim>\<open>src/index.ts\<close> (lines 79-187): the response it
  sends (\<open>Inr\<close>) or the exception that leaves it (\<open>Inl\<close>), with the calls made. The
  lines written to the console are left out: they are no part of a response.
\<close>

definition summary_scores_try ::
  "('ts, 'j) env \<Rightarrow> authRequest \<Rightarrow> (error + response) \<times> call list" where
  "summary_scores_try env req =
     (if (case user req of None \<Rightarrow> True | Some u \<Rightarrow> uid u \<noteq> mentorId req) then
        (Inr \<lparr>status = 403,
              body = Obj [(''error'', Str ''Forbidden: You can only access your own data.'')]\<rparr>,
         [])
      else
        case incidents_get env (mentorId req) (tutorId req) of
          Inl e \<Rightarrow> (Inl (StoreFailure e), [IncidentsGet (mentorId req) (tutorId req)])
        | Inr docs \<Rightarrow>
            if docs = [] then
              (Inr \<lparr>status = 200,
                    body = Obj [(''summary'', Str ''No incidents to summarize yet.''),
                                (''scores'', Obj [])]\<rparr>,
               [IncidentsGet (mentorId req) (tutorId req)])
            else
              let incidentTexts = map (incidentText (toISOString env)) docs;
                  prompt = scores_prompt incidentTexts;
                  request = genAIRequest prompt scores_jsonSchema;
                  calls = [IncidentsGet (mentorId req) (tutorId req), GenerateContent request]
              in case generateContent env request of
                   Inl e \<Rightarrow> (Inl (ProviderFailure e), calls)
                 | Inr None \<Rightarrow> (Inl NoTextResponse, calls)
                 | Inr (Some jsonString) \<Rightarrow>
                     if jsonString = [] then (Inl NoTextResponse, calls)
                     else
                       (case extract_json (JSON_parse env) jsonString of
                          Inl e \<Rightarrow> (Inl e, calls)
                        | Inr summaryJson \<Rightarrow>
                            (Inr \<lparr>status = 200,
                                  body = Serialized (JSON_stringify env summaryJson)\<rparr>,
                             calls)))"

text \<open>The \<^verbatim>\<open>catch\<close> block, the same in both files.\<close>

definition catch_block :: "(error + response) \<times> call list \<Rightarrow> response \<times> call list" where
  "catch_block r =
     (case r of
        (Inl e, calls) \<Rightarrow>
          (\<lparr>status = 500, body = Obj [(''message'', Str ''Something wrong happened'')]\<rparr>, calls)
      | (Inr res, calls) \<Rightarrow> (res, calls))"

definition summary_scores :: "('ts, 'j) env \<Rightarrow> authRequest \<Rightarrow> response \<times> call list" where
  "summary_scores env req = catch_block (summary_scores_try env req)"

text \<open>The \<^verbatim>\<open>try\<close> block of the handler of \<^verbatim>\<open>api/index.ts\<close> (lines 79-178).\<close>

definition summary_patterns_try ::
  "('ts, 'j) env \<Rightarrow> authRequest \<Rightarrow> (error + response) \<times> call list" where
  "summary_patterns_try env req =
     (if (case user req of None \<Rightarrow> True | Some u \<Rightarrow> uid u \<noteq> mentorId req) then
        (Inr \<lparr>status = 403,
              body = Obj [(''error'', Str ''Forbidden: You can only access your own data.'')]\<rparr>,
         [])
      else
        case incidents_get env (mentorId req) (tutorId req) of
          Inl e \<Rightarrow> (Inl (StoreFailure e), [IncidentsGet (mentorId req) (tutorId req)])
        | Inr docs \<Rightarrow>
            if docs = [] then
              (Inr \<lparr>status = 200,
                    body = Obj [(''summary'', Str ''No incidents to summarize yet.''),
                                (''patterns'', Arr []),
                                (''suggestions'', Arr [])]\<rparr>,
               [IncidentsGet (mentorId req) (tutorId req)])
            else
              let incidentTexts = map (incidentText (toISOString env)) docs;
                  prompt = patterns_prompt incidentTexts;
                  request = genAIRequest prompt patterns_jsonSchema;
                  calls = [IncidentsGet (mentorId req) (tutorId req), GenerateContent request]
              in case generateContent env request of
                   Inl e \<Rightarrow> (Inl (ProviderFailure e), calls)
                 | Inr None \<Rightarrow> (Inl NoTextResponse, calls)
                 | Inr (Some jsonString) \<Rightarrow>
                     if jsonString = [] then (Inl NoTextResponse, calls)
                     else
                       (case extract_json (JSON_parse env) jsonString of
                          Inl e \<Rightarrow> (Inl e, calls)
                        | Inr summaryJson \<Rightarrow>
                            (Inr \<lparr>status = 200,
                                  body = Serialized (JSON_stringify env summaryJson)\<rparr>,
                             calls)))"

definition summary_patterns :: "('ts, 'j) env \<Rightarrow> authRequest \<Rightarrow> response \<times> call list" where
  "summary_patterns env req = catch_block (summary_patterns_try env req)"

text \<open>
  \<^verbatim>\<open>app.get("/summary/:mentorId/:tutorId", verifyToken, handler)\<close>: the handler runs
  on the request \<^verbatim>\<open>verifyToken\<close> hands to \<^verbatim>\<open>next()\<close>, and not at all when the middleware
  has sent a response.
\<close>

definition route ::
  "(('ts, 'j) env \<Rightarrow> authRequest \<Rightarrow> response \<times> call list) \<Rightarrow>
   ('ts, 'j) env \<Rightarrow> authRequest \<Rightarrow> response \<times> call list" where
  "route handler env req =
     (case verifyToken env req of
        (Inl res, calls) \<Rightarrow> (res, calls)
      | (Inr req', calls) \<Rightarrow>
          (case handler env req' of (res, calls') \<Rightarrow> (res, calls @ calls')))"

definition get_summary_scores ::
  "('ts, 'j) env \<Rightarrow> authRequest \<Rightarrow> response \<times> call list" where
  "get_summary_scores = route summary_scores"

definition get_summary_patterns ::
  "('ts, 'j) env \<Rightarrow> authRequest \<Rightarrow> response \<times> call list" where
  "get_summary_patterns = route summary_patterns"

section \<open>Vocabulary of the statements\<close>

text \<open>
  The request each handler sends to the provider for the documents \<open>docs\<close>: the value
  bound to \<open>request\<close> in \<open>summary_scores_try\<close> and in \<open>summary_patterns_try\<close>.
\<close>

definition scores_request :: "('ts, 'j) env \<Rightarrow> 'ts incident list \<Rightarrow> genAIRequest" where
  "scores_request env docs =
     genAIRequest (scores_prompt (map (incidentText (toISOString env)) docs)) scores_jsonSchema"

definition patterns_request :: "('ts, 'j) env \<Rightarrow> 'ts incident list \<Rightarrow> genAIRequest" where
  "patterns_request env docs =
     genAIRequest (patterns_prompt (map (incidentText (toISOString env)) docs)) patterns_jsonSchema"

text \<open>
  The failures after authorization: the store read throws, or it returns documents and
  the provider call throws, returns no text, or returns a text the extraction step
  rejects. \<open>request\<close> is the request the handler sends for the documents.
\<close>

definition fails_after_authorization ::
  "('ts, 'j) env \<Rightarrow> ('ts incident list \<Rightarrow> genAIRequest) \<Rightarrow> authRequest \<Rightarrow> bool" where
  "fails_after_authorization env request req =
     (case incidents_get env (mentorId req) (tutorId req) of
        Inl e \<Rightarrow> True
      | Inr docs \<Rightarrow>
          docs \<noteq> [] \<and>
          (case generateContent env (request docs) of
             Inl e \<Rightarrow> True
           | Inr None \<Rightarrow> True
           | Inr (Some jsonString) \<Rightarrow>
               jsonString = [] \<or> isl (extract_json (JSON_parse env) jsonString)))"

text \<open>
  What both handlers answer once the provider has answered: lines 167-191 of
  \<^verbatim>\<open>src/index.ts\<close> and 159-182 of \<^verbatim>\<open>api/index.ts\<close>, the same text in both (the check for a
  text, the extraction step, \<^verbatim>\<open>res.json\<close>, the \<^verbatim>\<open>catch\<close> block).
\<close>

definition respond_to_answer :: "('ts, 'j) env \<Rightarrow> string + string option \<Rightarrow> response" where
  "respond_to_answer env answer =
     fst (catch_block
       (case answer of
          Inl e \<Rightarrow> (Inl (ProviderFailure e), [])
        | Inr None \<Rightarrow> (Inl NoTextResponse, [])
        | Inr (Some jsonString) \<Rightarrow>
            if jsonString = [] then (Inl NoTextResponse, [])
            else
              (case extract_json (JSON_parse env) jsonString of
                 Inl e \<Rightarrow> (Inl e, [])
               | Inr summaryJson \<Rightarrow>
                   (Inr \<lparr>status = 200,
                         body = Serialized (JSON_stringify env summaryJson)\<rparr>,
                    []))))"

text \<open>
  Two calls are alike when they are the same call, or two provider calls whose requests
  agree on everything but the prompt and the response schema.
\<close>

definition same_call :: "call \<Rightarrow> call \<Rightarrow> bool" where
  "same_call c c' =
     (case (c, c') of
        (GenerateContent r, GenerateContent r') \<Rightarrow>
          model r = model r' \<and> role r = role r' \<and> responseMimeType r = responseMimeType r'
      | _ \<Rightarrow> c = c')"

text \<open>
  An environment to run the handlers in: the verifier accepts the token \<^verbatim>\<open>token-m1\<close> as
  the user \<^verbatim>\<open>m1\<close>; the store has no incident for the tutor \<^verbatim>\<open>t0\<close>, two for \<^verbatim>\<open>t1\<close> and
  fails for every other; the provider answers every request with \<open>reply\<close>; the parser
  and the serializer are \<open>json_parse\<close> and \<open>json_stringify\<close>.
\<close>

definition example_env :: "string + string option \<Rightarrow> (unit, json) env" where
  "example_env reply =
     \<lparr>verifyIdToken =
        (\<lambda>t. if t = Some ''token-m1'' then Inr (DecodedIdToken ''m1'')
             else Inl ''Decoding Firebase ID token failed''),
      incidents_get =
        (\<lambda>m t. if t = ''t0'' then Inr []
               else if t = ''t1'' then
                 Inr [\<lparr>date = None, description = ''Arrived late''\<rparr>,
                      \<lparr>date = Some (), description = ''Helped a colleague''\<rparr>]
               else Inl ''UNAVAILABLE''),
      generateContent = (\<lambda>r. reply),
      JSON_parse = json_parse,
      JSON_stringify = json_stringify,
      toISOString = (\<lambda>d. ''2024-05-01T09:30:00.000Z'')\<rparr>"

definition example_request :: "string option \<Rightarrow> string \<Rightarrow> string \<Rightarrow> authRequest" where
  "example_request h m t = \<lparr>authorization = h, mentorId = m, tutorId = t, user = None\<rparr>"

text \<open>The seven criteria of the data model, by name.\<close>

definition criteria :: "string list" where
  "criteria =
     [''Suggests New Ideas'', ''Collaboration'', ''Responsiveness'', ''Adaptability'',
      ''Feedback'', ''Attendance'', ''Professionalism'']"

section \<open>Properties of the string operations\<close>

lemma indexOf_absent: "indexOf s c = - 1 \<longleftrightarrow> c \<notin> set s"
  by (simp add: indexOf_def)

lemma takeWhile_neq_shorter: "c \<in> set xs \<Longrightarrow> length (takeWhile (\<lambda>x. x \<noteq> c) xs) < length xs"
  by (induction xs) auto

lemma lastIndexOf_absent: "lastIndexOf s c = - 1 \<longleftrightarrow> c \<notin> set s"
proof (cases "c \<in> set s")
  case True
  then have "length (takeWhile (\<lambda>x. x \<noteq> c) (rev s)) < length s"
    using takeWhile_neq_shorter [of c "rev s"] by simp
  with True show ?thesis by (simp add: lastIndexOf_def)
next
  case False
  then show ?thesis by (simp add: lastIndexOf_def)
qed

lemma indexOf_range: "c \<in> set s \<Longrightarrow> 0 \<le> indexOf s c \<and> indexOf s c < int (length s)"
  using takeWhile_neq_shorter [of c s] by (simp add: indexOf_def)

lemma lastIndexOf_range: "c \<in> set s \<Longrightarrow> 0 \<le> lastIndexOf s c \<and> lastIndexOf s c < int (length s)"
  using takeWhile_neq_shorter [of c "rev s"] by (simp add: lastIndexOf_def)

lemma takeWhile_neq_stop: "c \<notin> set pre \<Longrightarrow> takeWhile (\<lambda>x. x \<noteq> c) (pre @ c # rest) = pre"
  by (induction pre) auto

lemma indexOf_first: "c \<notin> set pre \<Longrightarrow> indexOf (pre @ c # rest) c = int (length pre)"
  by (simp add: indexOf_def takeWhile_neq_stop)

lemma lastIndexOf_last:
  assumes "c \<notin> set suf"
  shows "lastIndexOf (pre @ c # suf) c = int (length pre)"
proof -
  have "takeWhile (\<lambda>x. x \<noteq> c) (rev suf @ c # rev pre) = rev suf"
    using assms by (intro takeWhile_neq_stop) simp
  then show ?thesis by (simp add: lastIndexOf_def)
qed

lemma substring_ordered:
  "0 \<le> a \<Longrightarrow> a \<le> b \<Longrightarrow> b \<le> int (length s) \<Longrightarrow>
   substring s a b = take (nat (b - a)) (drop (nat a) s)"
  by (simp add: substring_def Let_def min_def max_def)

lemma substring_swapped:
  "0 \<le> b \<Longrightarrow> b \<le> a \<Longrightarrow> a \<le> int (length s) \<Longrightarrow>
   substring s a b = take (nat (a - b)) (drop (nat b) s)"
  by (simp add: substring_def Let_def min_def max_def)

lemma extract_json_absent:
  "CHR ''{'' \<notin> set text \<or> CHR ''}'' \<notin> set text \<Longrightarrow> extract_json P text = Inl NoJsonFound"
  by (auto simp add: extract_json_def Let_def indexOf_absent lastIndexOf_absent)

lemma extract_json_ordered:
  assumes "CHR ''{'' \<notin> set pre" and "CHR ''}'' \<notin> set suf"
  shows "extract_json P (pre @ CHR ''{'' # mid @ CHR ''}'' # suf) =
           (case P (CHR ''{'' # mid @ [CHR ''}'']) of
              Inl e \<Rightarrow> Inl (MalformedJson e)
            | Inr v \<Rightarrow> Inr v)"
proof -
  let ?t = "pre @ CHR ''{'' # mid @ CHR ''}'' # suf"
  have i: "indexOf ?t (CHR ''{'') = int (length pre)"
    using assms(1) by (rule indexOf_first)
  have "lastIndexOf ((pre @ CHR ''{'' # mid) @ CHR ''}'' # suf) (CHR ''}'') =
          int (length (pre @ CHR ''{'' # mid))"
    using assms(2) by (rule lastIndexOf_last)
  then have j: "lastIndexOf ?t (CHR ''}'') = int (length pre) + 1 + int (length mid)"
    by simp
  have "substring ?t (int (length pre)) (int (length pre) + 1 + int (length mid) + 1) =
          take (nat (int (length pre) + 1 + int (length mid) + 1 - int (length pre)))
            (drop (nat (int (length pre))) ?t)"
    by (rule substring_ordered) simp_all
  also have "\<dots> = CHR ''{'' # mid @ [CHR ''}'']"
    by (simp add: nat_add_distrib)
  finally have sub: "substring ?t (int (length pre)) (int (length pre) + 1 + int (length mid) + 1) =
      CHR ''{'' # mid @ [CHR ''}'']" .
  show ?thesis
    unfolding extract_json_def Let_def i j sub by simp
qed

lemma extract_json_reversed:
  assumes "CHR ''{'' \<notin> set a" and "CHR ''{'' \<notin> set mid"
    and "CHR ''}'' \<notin> set mid" and "CHR ''}'' \<notin> set b"
  shows "extract_json P (a @ CHR ''}'' # mid @ CHR ''{'' # b) =
           (case P mid of Inl e \<Rightarrow> Inl (MalformedJson e) | Inr v \<Rightarrow> Inr v)"
proof -
  let ?t = "a @ CHR ''}'' # mid @ CHR ''{'' # b"
  have "indexOf ((a @ CHR ''}'' # mid) @ CHR ''{'' # b) (CHR ''{'') =
          int (length (a @ CHR ''}'' # mid))"
    using assms(1,2) by (intro indexOf_first) simp
  then have i: "indexOf ?t (CHR ''{'') = int (length a) + 1 + int (length mid)"
    by simp
  have j: "lastIndexOf ?t (CHR ''}'') = int (length a)"
    using assms(3,4) by (intro lastIndexOf_last) simp
  have "substring ?t (int (length a) + 1 + int (length mid)) (int (length a) + 1) =
          take (nat (int (length a) + 1 + int (length mid) - (int (length a) + 1)))
            (drop (nat (int (length a) + 1)) ?t)"
    by (rule substring_swapped) simp_all
  also have "\<dots> = mid"
    by (simp add: nat_add_distrib)
  finally have sub: "substring ?t (int (length a) + 1 + int (length mid)) (int (length a) + 1) = mid" .
  show ?thesis
    unfolding extract_json_def Let_def i j sub by simp
qed

lemma reversed_indices:
  assumes "CHR ''{'' \<notin> set a" and "CHR ''{'' \<notin> set mid"
    and "CHR ''}'' \<notin> set mid" and "CHR ''}'' \<notin> set b"
  shows "indexOf (a @ CHR ''}'' # mid @ CHR ''{'' # b) (CHR ''{'') =
           int (length a) + 1 + int (length mid)"
    and "lastIndexOf (a @ CHR ''}'' # mid @ CHR ''{'' # b) (CHR ''}'') = int (length a)"
    and "substring (a @ CHR ''}'' # mid @ CHR ''{'' # b)
           (int (length a) + 1 + int (length mid)) (int (length a) + 1) = mid"
proof -
  let ?t = "a @ CHR ''}'' # mid @ CHR ''{'' # b"
  have "indexOf ((a @ CHR ''}'' # mid) @ CHR ''{'' # b) (CHR ''{'') =
          int (length (a @ CHR ''}'' # mid))"
    using assms(1,2) by (intro indexOf_first) simp
  then show "indexOf ?t (CHR ''{'') = int (length a) + 1 + int (length mid)"
    by simp
  show "lastIndexOf ?t (CHR ''}'') = int (length a)"
    using assms(3,4) by (intro lastIndexOf_last) simp
  have "substring ?t (int (length a) + 1 + int (length mid)) (int (length a) + 1) =
          take (nat (int (length a) + 1 + int (length mid) - (int (length a) + 1)))
            (drop (nat (int (length a) + 1)) ?t)"
    by (rule substring_swapped) simp_all
  also have "\<dots> = mid"
    by (simp add: nat_add_distrib)
  finally show "substring ?t (int (length a) + 1 + int (length mid)) (int (length a) + 1) = mid" .
qed

text \<open>
  Every text that holds both characters, the last \<^verbatim>\<open>}\<close> at a smaller index than the first
  \<^verbatim>\<open>{\<close>, has the shape of \<open>extract_json_reversed\<close>.
\<close>

lemma reversed_shape:
  assumes "CHR ''{'' \<in> set text" and "CHR ''}'' \<in> set text"
    and "lastIndexOf text (CHR ''}'') < indexOf text (CHR ''{'')"
  shows "\<exists>a mid b. text = a @ CHR ''}'' # mid @ CHR ''{'' # b
           \<and> CHR ''{'' \<notin> set a \<and> CHR ''{'' \<notin> set mid
           \<and> CHR ''}'' \<notin> set mid \<and> CHR ''}'' \<notin> set b"
proof -
  from assms(1) obtain ys zs where f: "text = ys @ CHR ''{'' # zs" "CHR ''{'' \<notin> set ys"
    by (auto dest: split_list_first)
  from assms(2) obtain a r where l: "text = a @ CHR ''}'' # r" "CHR ''}'' \<notin> set r"
    by (auto dest: split_list_last)
  have i: "indexOf text (CHR ''{'') = int (length ys)"
    unfolding f(1) using f(2) by (rule indexOf_first)
  have j: "lastIndexOf text (CHR ''}'') = int (length a)"
    unfolding l(1) using l(2) by (rule lastIndexOf_last)
  from assms(3) i j have less: "length a < length ys" by simp
  from f(1) l(1) have eq: "a @ CHR ''}'' # r = ys @ CHR ''{'' # zs" by simp
  from eq less obtain us where us: "ys = a @ us" "CHR ''}'' # r = us @ CHR ''{'' # zs"
    by (auto simp add: append_eq_append_conv2)
  from us(1) less have "us \<noteq> []" by auto
  with us(2) obtain mid where mid: "us = CHR ''}'' # mid" "r = mid @ CHR ''{'' # zs"
    by (cases us) auto
  have "text = a @ CHR ''}'' # mid @ CHR ''{'' # zs"
    using l(1) mid(2) by simp
  moreover have "CHR ''{'' \<notin> set a" "CHR ''{'' \<notin> set mid"
    using f(2) us(1) mid(1) by auto
  moreover have "CHR ''}'' \<notin> set mid" "CHR ''}'' \<notin> set zs"
    using l(2) mid(2) by auto
  ultimately show ?thesis by blast
qed

section \<open>Substrings of the templates\<close>

text \<open>
  A text without a newline that occurs in a concatenation of lines occurs in one of the
  lines: the templates are searched line by line.
\<close>

lemma sublist_in_left: "sublist xs ys \<Longrightarrow> sublist xs (ys @ zs)"
  by (simp add: sublist_append)

lemma sublist_in_right: "sublist xs zs \<Longrightarrow> sublist xs (ys @ zs)"
  by (simp add: sublist_append)

lemma not_sublist_lines:
  assumes "line \<noteq> [] \<and> last line = nl \<and> nl \<notin> set xs \<and> \<not> sublist xs line"
    and "\<not> sublist xs rest"
  shows "\<not> sublist xs (line @ rest)"
proof
  assume "sublist xs (line @ rest)"
  then consider "sublist xs line" | "sublist xs rest"
    | xs1 xs2 where "xs = xs1 @ xs2" "suffix xs1 line" "prefix xs2 rest"
    unfolding sublist_append by blast
  then show False
  proof cases
    case 1
    with assms(1) show False by simp
  next
    case 2
    with assms(2) show False by simp
  next
    case 3
    show False
    proof (cases "xs1 = []")
      case True
      with 3 have "prefix xs rest" by simp
      then have "sublist xs rest" by (rule prefix_imp_sublist)
      with assms(2) show False by simp
    next
      case False
      from 3(2) obtain zs where z: "line = zs @ xs1" by (auto simp add: suffix_def)
      with False have "last line = last xs1" by simp
      with False have "last line \<in> set xs1" by simp
      with 3(1) assms(1) show False by auto
    qed
  qed
qed

lemma scores_template_contents:
  \<open>sublist ''Do NOT summarize each incident individually.'' scores_template
   \<and> sublist ''Analyze ALL incidents AS A WHOLE.'' scores_template
   \<and> list_all (\<lambda>c. sublist (''"'' @ c @ ''": { "score": 1-5, "justification": "Your justification." }'') scores_template) criteria
   \<and> sublist ''Use a 1-5 scale:'' scores_template
   \<and> sublist ''If there is NO INFORMATION, score it as 3 (Neutral) and justify with 'Insufficient information.'' scores_template
   \<and> sublist ''Your response MUST match this JSON schema:'' scores_template
   \<and> sublist ''"summary": "Your 2-3 sentence summary here."'' scores_template
   \<and> sublist ''"scores": {'' scores_template\<close>
  unfolding criteria_def list_all_Cons_iff list_all_Nil_iff scores_template_def
  by (intro conjI TrueI;
      ((rule sublist_in_left, (code_simp; fail)) | rule sublist_in_right | code_simp)+)

lemma patterns_template_contents:
  \<open>sublist ''You MUST NOT summarize each incident individually.'' patterns_template
   \<and> sublist ''Analyze ALL incidents AS A WHOLE.'' patterns_template
   \<and> sublist ''"summary": "A 2-3 sentence overall summary of performance."'' patterns_template
   \<and> sublist ''"patterns": ["A list of key behavioral patterns (strengths or weaknesses)."]'' patterns_template
   \<and> sublist ''"suggestions": ["A list of actionable suggestions for improvement (if any)."]'' patterns_template\<close>
  unfolding patterns_template_def
  by (intro conjI;
      ((rule sublist_in_left, (code_simp; fail)) | rule sublist_in_right | code_simp)+)

lemma patterns_template_no_criteria:
  \<open>\<not> list_ex (\<lambda>c. sublist c patterns_template) criteria \<and> \<not> sublist ''1-5'' patterns_template\<close>
  unfolding criteria_def list_ex_Cons_iff list_ex_Nil_iff de_Morgan_disj simp_thms patterns_template_def
  by (intro conjI not_sublist_lines [where nl = "CHR 0x0A"]; code_simp)

lemma patterns_template_ends: "patterns_template \<noteq> [] \<and> last patterns_template = CHR 0x0A"
  by code_simp

lemma criteria_one_line: "\<forall>c \<in> set criteria. CHR 0x0A \<notin> set c"
  by (simp add: criteria_def)

lemma no_criterion_in_patterns_prompt:
  assumes "\<not> list_ex (\<lambda>c. sublist c rest) criteria"
  shows "\<not> list_ex (\<lambda>c. sublist c (patterns_template @ rest)) criteria"
proof -
  have "\<not> sublist c (patterns_template @ rest)" if c: "c \<in> set criteria" for c
  proof (rule not_sublist_lines)
    have "\<not> sublist c patterns_template"
      using patterns_template_no_criteria c by (auto simp add: list_ex_iff)
    with patterns_template_ends criteria_one_line c
    show "patterns_template \<noteq> [] \<and> last patterns_template = CHR 0x0A
        \<and> CHR 0x0A \<notin> set c \<and> \<not> sublist c patterns_template"
      by blast
    show "\<not> sublist c rest"
      using assms c by (auto simp add: list_ex_iff)
  qed
  then show ?thesis by (auto simp add: list_ex_iff)
qed

section \<open>Properties of the middleware and of the handlers\<close>

lemma verifyToken_unauthorized:
  assumes "authorization req = None \<or> (\<exists>h. authorization req = Some h \<and> \<not> startsWith h ''Bearer '')"
  shows "verifyToken env req =
           (Inl \<lparr>status = 401, body = Obj [(''error'', Str ''Unauthorized: No token provided.'')]\<rparr>, [])"
  using assms by (auto simp add: verifyToken_def Let_def)

lemma verifyToken_invalid:
  assumes "authorization req = Some h" and "startsWith h ''Bearer ''"
    and "verifyIdToken env (idToken h) = Inl e"
  shows "verifyToken env req =
           (Inl \<lparr>status = 403, body = Obj [(''error'', Str ''Forbidden: Invalid token.'')]\<rparr>,
            [VerifyIdToken (idToken h)])"
proof -
  from assms(2) have "h \<noteq> []" by (auto simp add: startsWith_def)
  with assms show ?thesis by (simp add: verifyToken_def Let_def)
qed

lemma verifyToken_next:
  assumes "authorization req = Some h" and "startsWith h ''Bearer ''"
    and "verifyIdToken env (idToken h) = Inr d"
  shows "verifyToken env req = (Inr (req\<lparr>user := Some d\<rparr>), [VerifyIdToken (idToken h)])"
proof -
  from assms(2) have "h \<noteq> []" by (auto simp add: startsWith_def)
  with assms show ?thesis by (simp add: verifyToken_def Let_def)
qed

lemma route_next:
  assumes "authorization req = Some h" and "startsWith h ''Bearer ''"
    and "verifyIdToken env (idToken h) = Inr d"
  shows "route handler env req =
           (fst (handler env (req\<lparr>user := Some d\<rparr>)),
            VerifyIdToken (idToken h) # snd (handler env (req\<lparr>user := Some d\<rparr>)))"
  by (simp add: route_def verifyToken_next [OF assms] split: prod.splits)

lemma summary_scores_not_owner:
  assumes "user req = Some d" and "uid d \<noteq> mentorId req"
  shows "summary_scores env req =
           (\<lparr>status = 403,
             body = Obj [(''error'', Str ''Forbidden: You can only access your own data.'')]\<rparr>, [])"
  using assms by (simp add: summary_scores_def summary_scores_try_def catch_block_def)

lemma summary_patterns_not_owner:
  assumes "user req = Some d" and "uid d \<noteq> mentorId req"
  shows "summary_patterns env req =
           (\<lparr>status = 403,
             body = Obj [(''error'', Str ''Forbidden: You can only access your own data.'')]\<rparr>, [])"
  using assms by (simp add: summary_patterns_def summary_patterns_try_def catch_block_def)

text \<open>The owner's request: what each handler does, by the results of its collaborators.\<close>

lemma summary_scores_owner:
  assumes "user req = Some d" and "uid d = mentorId req"
  shows "summary_scores env req =
    (case incidents_get env (mentorId req) (tutorId req) of
       Inl e \<Rightarrow>
         (\<lparr>status = 500, body = Obj [(''message'', Str ''Something wrong happened'')]\<rparr>,
          [IncidentsGet (mentorId req) (tutorId req)])
     | Inr docs \<Rightarrow>
         if docs = [] then
           (\<lparr>status = 200,
             body = Obj [(''summary'', Str ''No incidents to summarize yet.''), (''scores'', Obj [])]\<rparr>,
            [IncidentsGet (mentorId req) (tutorId req)])
         else
           (case generateContent env (scores_request env docs) of
              Inr (Some jsonString) \<Rightarrow>
                (case (if jsonString = [] then Inl NoTextResponse
                       else extract_json (JSON_parse env) jsonString) of
                   Inl e \<Rightarrow> \<lparr>status = 500, body = Obj [(''message'', Str ''Something wrong happened'')]\<rparr>
                 | Inr j \<Rightarrow> \<lparr>status = 200, body = Serialized (JSON_stringify env j)\<rparr>)
            | _ \<Rightarrow> \<lparr>status = 500, body = Obj [(''message'', Str ''Something wrong happened'')]\<rparr>,
            [IncidentsGet (mentorId req) (tutorId req), GenerateContent (scores_request env docs)]))"
  using assms
  by (simp add: summary_scores_def summary_scores_try_def catch_block_def scores_request_def Let_def
      split: sum.splits option.splits)

lemma summary_patterns_owner:
  assumes "user req = Some d" and "uid d = mentorId req"
  shows "summary_patterns env req =
    (case incidents_get env (mentorId req) (tutorId req) of
       Inl e \<Rightarrow>
         (\<lparr>status = 500, body = Obj [(''message'', Str ''Something wrong happened'')]\<rparr>,
          [IncidentsGet (mentorId req) (tutorId req)])
     | Inr docs \<Rightarrow>
         if docs = [] then
           (\<lparr>status = 200,
             body = Obj [(''summary'', Str ''No incidents to summarize yet.''),
                         (''patterns'', Arr []), (''suggestions'', Arr [])]\<rparr>,
            [IncidentsGet (mentorId req) (tutorId req)])
         else
           (case generateContent env (patterns_request env docs) of
              Inr (Some jsonString) \<Rightarrow>
                (case (if jsonString = [] then Inl NoTextResponse
                       else extract_json (JSON_parse env) jsonString) of
                   Inl e \<Rightarrow> \<lparr>status = 500, body = Obj [(''message'', Str ''Something wrong happened'')]\<rparr>
                 | Inr j \<Rightarrow> \<lparr>status = 200, body = Serialized (JSON_stringify env j)\<rparr>)
            | _ \<Rightarrow> \<lparr>status = 500, body = Obj [(''message'', Str ''Something wrong happened'')]\<rparr>,
            [IncidentsGet (mentorId req) (tutorId req), GenerateContent (patterns_request env docs)]))"
  using assms
  by (simp add: summary_patterns_def summary_patterns_try_def catch_block_def patterns_request_def Let_def
      split: sum.splits option.splits)

lemma incidentText_fun:
  "incidentText toISO =
     (\<lambda>i. (case date i of None \<Rightarrow> ''unknown date'' | Some t \<Rightarrow> toISO t) @ '': '' @ description i)"
  by (rule ext) (simp add: incidentText_def Let_def)

lemma same_call_refl: "same_call c c"
  by (cases c) (simp_all add: same_call_def)

lemma same_calls_refl: "list_all2 same_call cs cs"
  by (rule list_all2_refl) (rule same_call_refl)

lemma same_call_requests: "same_call (GenerateContent (scores_request env docs))
    (GenerateContent (patterns_request env docs))"
  by (simp add: same_call_def scores_request_def patterns_request_def genAIRequest_def)

lemma verifyToken_Inr:
  assumes "verifyToken env req = (Inr req', calls)"
  obtains h d where "authorization req = Some h" and "startsWith h ''Bearer ''"
    and "verifyIdToken env (idToken h) = Inr d"
  using assms
  by (auto simp add: verifyToken_def Let_def split: option.splits if_splits sum.splits)

lemma patterns_calls:
  assumes "authorization req = Some h" and "startsWith h ''Bearer ''"
    and "verifyIdToken env (idToken h) = Inr d"
    and "uid d = mentorId req"
    and "incidents_get env (mentorId req) (tutorId req) = Inr docs" and "docs \<noteq> []"
  shows "snd (get_summary_patterns env req) =
      [VerifyIdToken (idToken h), IncidentsGet (mentorId req) (tutorId req),
       GenerateContent (patterns_request env docs)]"
proof -
  let ?req = "req\<lparr>user := Some d\<rparr>"
  have u: "user ?req = Some d" and m: "uid d = mentorId ?req"
    using assms(4) by simp_all
  have g: "incidents_get env (mentorId ?req) (tutorId ?req) = Inr docs"
    using assms(5) by simp
  show ?thesis
    unfolding get_summary_patterns_def route_next [OF assms(1-3)] summary_patterns_owner [OF u m] g
    using assms(6) by simp
qed

text \<open>The example environment and the example requests.\<close>

lemma example_verified:
  "verifyIdToken (example_env reply) (idToken ''Bearer token-m1'') = Inr (DecodedIdToken ''m1'')"
proof -
  have "idToken ''Bearer token-m1'' = Some ''token-m1''" by code_simp
  then show ?thesis by (simp add: example_env_def)
qed

lemma example_owner_request:
  "authorization (example_request (Some h) m t) = Some h"
  "mentorId (example_request a m t) = m"
  "tutorId (example_request a m t) = t"
  by (simp_all add: example_request_def)

lemma example_incidents_t1:
  "incidents_get (example_env reply) m ''t1'' =
     Inr [\<lparr>date = None, description = ''Arrived late''\<rparr>,
          \<lparr>date = Some (), description = ''Helped a colleague''\<rparr>]"
  by (simp add: example_env_def)

lemma example_reply: "generateContent (example_env reply) r = reply"
  by (simp add: example_env_def)

lemma example_parser: "JSON_parse (example_env reply) = json_parse"
  by (simp add: example_env_def)

lemma example_serializer: "JSON_stringify (example_env reply) = json_stringify"
  by (simp add: example_env_def)

lemma startsWith_example: "startsWith ''Bearer token-m1'' ''Bearer ''"
  by (simp add: startsWith_def)

section \<open>The claims\<close>

text \<open>
  C1. The claim: a text with no \<^verbatim>\<open>{\<close> or no \<^verbatim>\<open>}\<close> fails with \<open>NoJsonFound\<close>; every other
  text is cut from its first \<^verbatim>\<open>{\<close> to its last \<^verbatim>\<open>}\<close> and that substring is parsed. The
  code does so when the first \<^verbatim>\<open>{\<close> comes before the last \<^verbatim>\<open>}\<close> (\<open>extract_json_absent\<close>,
  \<open>extract_json_ordered\<close>). When the last \<^verbatim>\<open>}\<close> comes first, \<^verbatim>\<open>substring\<close> swaps its
  arguments and the text strictly between the two characters is parsed instead: the model
  output \<^verbatim>\<open>}1{\<close> has no substring from its first \<^verbatim>\<open>{\<close> to its last \<^verbatim>\<open>}\<close>, and both routes
  answer it with status 200 and the body \<^verbatim>\<open>1\<close>.
\<close>

theorem reversed_braces_example:
  "indexOf ''}1{'' (CHR ''{'') = 2
   \<and> lastIndexOf ''}1{'' (CHR ''}'') = 0
   \<and> substring ''}1{'' 2 (0 + 1) = ''1''
   \<and> extract_json json_parse ''}1{'' = Inr (JNumber ''1'')
   \<and> fst (get_summary_scores (example_env (Inr (Some ''}1{'')))
            (example_request (Some ''Bearer token-m1'') ''m1'' ''t1'')) =
       \<lparr>status = 200, body = Serialized ''1''\<rparr>
   \<and> fst (get_summary_patterns (example_env (Inr (Some ''}1{'')))
            (example_request (Some ''Bearer token-m1'') ''m1'' ''t1'')) =
       \<lparr>status = 200, body = Serialized ''1''\<rparr>"
  by code_simp

text \<open>
  C2. When the store returns an incident sequence of length 0 to an authorized request,
  each route answers at once with its canned empty result (status 200; the summary
  \<^verbatim>\<open>No incidents to summarize yet.\<close> with an empty \<^verbatim>\<open>scores\<close> object in \<^verbatim>\<open>src/index.ts\<close>,
  with empty \<^verbatim>\<open>patterns\<close> and \<^verbatim>\<open>suggestions\<close> arrays in \<^verbatim>\<open>api/index.ts\<close>), and the calls
  made are the token verification and the store read: no call to the provider.
\<close>

theorem empty_incidents_short_circuit:
  assumes "authorization req = Some h" and "startsWith h ''Bearer ''"
    and "verifyIdToken env (idToken h) = Inr d"
    and "uid d = mentorId req"
    and "incidents_get env (mentorId req) (tutorId req) = Inr docs"
    and "length docs = 0"
  shows "get_summary_scores env req =
           (\<lparr>status = 200,
             body = Obj [(''summary'', Str ''No incidents to summarize yet.''), (''scores'', Obj [])]\<rparr>,
            [VerifyIdToken (idToken h), IncidentsGet (mentorId req) (tutorId req)])
       \<and> get_summary_patterns env req =
           (\<lparr>status = 200,
             body = Obj [(''summary'', Str ''No incidents to summarize yet.''),
                         (''patterns'', Arr []), (''suggestions'', Arr [])]\<rparr>,
            [VerifyIdToken (idToken h), IncidentsGet (mentorId req) (tutorId req)])
       \<and> \<not> list_ex is_GenerateContent (snd (get_summary_scores env req))
       \<and> \<not> list_ex is_GenerateContent (snd (get_summary_patterns env req))"
proof -
  let ?req = "req\<lparr>user := Some d\<rparr>"
  have u: "user ?req = Some d" and m: "uid d = mentorId ?req"
    using assms(4) by simp_all
  have g: "incidents_get env (mentorId ?req) (tutorId ?req) = Inr []"
    using assms(5,6) by simp
  have s: "get_summary_scores env req =
           (\<lparr>status = 200,
             body = Obj [(''summary'', Str ''No incidents to summarize yet.''), (''scores'', Obj [])]\<rparr>,
            [VerifyIdToken (idToken h), IncidentsGet (mentorId req) (tutorId req)])"
    unfolding get_summary_scores_def route_next [OF assms(1-3)] summary_scores_owner [OF u m] g
    by simp
  have p: "get_summary_patterns env req =
           (\<lparr>status = 200,
             body = Obj [(''summary'', Str ''No incidents to summarize yet.''),
                         (''patterns'', Arr []), (''suggestions'', Arr [])]\<rparr>,
            [VerifyIdToken (idToken h), IncidentsGet (mentorId req) (tutorId req)])"
    unfolding get_summary_patterns_def route_next [OF assms(1-3)] summary_patterns_owner [OF u m] g
    by simp
  show ?thesis
    unfolding s p by simp
qed

theorem empty_incidents_short_circuit_witness:
  "authorization (example_request (Some ''Bearer token-m1'') ''m1'' ''t0'') = Some ''Bearer token-m1''
   \<and> startsWith ''Bearer token-m1'' ''Bearer ''
   \<and> verifyIdToken (example_env (Inl ''quota exceeded'')) (idToken ''Bearer token-m1'') =
       Inr (DecodedIdToken ''m1'')
   \<and> uid (DecodedIdToken ''m1'') = mentorId (example_request (Some ''Bearer token-m1'') ''m1'' ''t0'')
   \<and> incidents_get (example_env (Inl ''quota exceeded''))
         (mentorId (example_request (Some ''Bearer token-m1'') ''m1'' ''t0''))
         (tutorId (example_request (Some ''Bearer token-m1'') ''m1'' ''t0'')) = Inr []
   \<and> length ([] :: unit incident list) = 0
   \<and> get_summary_scores (example_env (Inl ''quota exceeded''))
         (example_request (Some ''Bearer token-m1'') ''m1'' ''t0'') =
           (\<lparr>status = 200,
             body = Obj [(''summary'', Str ''No incidents to summarize yet.''), (''scores'', Obj [])]\<rparr>,
            [VerifyIdToken (Some ''token-m1''), IncidentsGet ''m1'' ''t0''])
   \<and> get_summary_patterns (example_env (Inl ''quota exceeded''))
         (example_request (Some ''Bearer token-m1'') ''m1'' ''t0'') =
           (\<lparr>status = 200,
             body = Obj [(''summary'', Str ''No incidents to summarize yet.''),
                         (''patterns'', Arr []), (''suggestions'', Arr [])]\<rparr>,
            [VerifyIdToken (Some ''token-m1''), IncidentsGet ''m1'' ''t0''])"
proof -
  let ?req = "example_request (Some ''Bearer token-m1'') ''m1'' ''t0''"
  let ?env = "example_env (Inl ''quota exceeded'')"
  have h1: "authorization ?req = Some ''Bearer token-m1''"
    by (simp add: example_request_def)
  have h2: "startsWith ''Bearer token-m1'' ''Bearer ''"
    by (simp add: startsWith_def)
  have h3: "verifyIdToken ?env (idToken ''Bearer token-m1'') = Inr (DecodedIdToken ''m1'')"
    by code_simp
  have h4: "uid (DecodedIdToken ''m1'') = mentorId ?req"
    by (simp add: example_request_def)
  have h5: "incidents_get ?env (mentorId ?req) (tutorId ?req) = Inr []"
    by (simp add: example_request_def example_env_def)
  have h6: "length ([] :: unit incident list) = 0"
    by simp
  have t: "idToken ''Bearer token-m1'' = Some ''token-m1''"
    by code_simp
  have r: "mentorId ?req = ''m1''" "tutorId ?req = ''t0''"
    by (simp_all add: example_request_def)
  show ?thesis
    using h1 h2 h3 h4 h5 h6 empty_incidents_short_circuit [OF h1 h2 h3 h4 h5 h6]
    unfolding t r by blast
qed




text \<open>
  C4. A request whose verified caller identity (the \<open>uid\<close> of the decoded token) differs
  from the \<^verbatim>\<open>mentorId\<close> path parameter gets the response 403 from both routes, whatever
  the store and the provider would answer: the only call made is the one to the token
  verifier.
\<close>

theorem not_owner_forbidden:
  assumes "authorization req = Some h" and "startsWith h ''Bearer ''"
    and "verifyIdToken env (idToken h) = Inr d"
    and "uid d \<noteq> mentorId req"
  shows "get_summary_scores env req =
           (\<lparr>status = 403,
             body = Obj [(''error'', Str ''Forbidden: You can only access your own data.'')]\<rparr>,
            [VerifyIdToken (idToken h)])
       \<and> get_summary_patterns env req =
           (\<lparr>status = 403,
             body = Obj [(''error'', Str ''Forbidden: You can only access your own data.'')]\<rparr>,
            [VerifyIdToken (idToken h)])"
proof -
  let ?req = "req\<lparr>user := Some d\<rparr>"
  have u: "user ?req = Some d" and m: "uid d \<noteq> mentorId ?req"
    using assms(4) by simp_all
  show ?thesis
    unfolding get_summary_scores_def get_summary_patterns_def
    by (simp add: route_next [OF assms(1-3)] summary_scores_not_owner [OF u m]
        summary_patterns_not_owner [OF u m])
qed

theorem not_owner_forbidden_witness:
  "authorization (example_request (Some ''Bearer token-m1'') ''m2'' ''t1'') = Some ''Bearer token-m1''
   \<and> startsWith ''Bearer token-m1'' ''Bearer ''
   \<and> verifyIdToken (example_env (Inl ''quota exceeded'')) (idToken ''Bearer token-m1'') = Inr (DecodedIdToken ''m1'')
   \<and> uid (DecodedIdToken ''m1'') \<noteq> mentorId (example_request (Some ''Bearer token-m1'') ''m2'' ''t1'')
   \<and> get_summary_scores (example_env (Inl ''quota exceeded'')) (example_request (Some ''Bearer token-m1'') ''m2'' ''t1'') =
           (\<lparr>status = 403,
             body = Obj [(''error'', Str ''Forbidden: You can only access your own data.'')]\<rparr>,
            [VerifyIdToken (idToken ''Bearer token-m1'')])
   \<and> get_summary_patterns (example_env (Inl ''quota exceeded'')) (example_request (Some ''Bearer token-m1'') ''m2'' ''t1'') =
           (\<lparr>status = 403,
             body = Obj [(''error'', Str ''Forbidden: You can only access your own data.'')]\<rparr>,
            [VerifyIdToken (idToken ''Bearer token-m1'')])"
proof -
  have h1: "authorization (example_request (Some ''Bearer token-m1'') ''m2'' ''t1'') = Some ''Bearer token-m1''"
    by (simp add: example_request_def)
  have h2: "startsWith ''Bearer token-m1'' ''Bearer ''"
    by (simp add: startsWith_def)
  have h3: "verifyIdToken (example_env (Inl ''quota exceeded'')) (idToken ''Bearer token-m1'') = Inr (DecodedIdToken ''m1'')"
    by code_simp
  have h4: "uid (DecodedIdToken ''m1'') \<noteq> mentorId (example_request (Some ''Bearer token-m1'') ''m2'' ''t1'')"
    by (simp add: example_request_def)
  show ?thesis
    using h1 h2 h3 h4 not_owner_forbidden [OF h1 h2 h3 h4] by blast
qed

text \<open>
  C5. Every failure after authorization (the store read throws; the provider call
  throws or returns no text; the extraction step fails) gets the response 500 with the
  body \<^verbatim>\<open>{ "message": "Something wrong happened" }\<close>: a fixed body, which holds no text
  of the exception.
\<close>

theorem failure_generic_500:
  assumes "authorization req = Some h" and "startsWith h ''Bearer ''"
    and "verifyIdToken env (idToken h) = Inr d"
    and "uid d = mentorId req"
  shows "(fails_after_authorization env (scores_request env) req \<longrightarrow>
            fst (get_summary_scores env req) =
              \<lparr>status = 500, body = Obj [(''message'', Str ''Something wrong happened'')]\<rparr>)
       \<and> (fails_after_authorization env (patterns_request env) req \<longrightarrow>
            fst (get_summary_patterns env req) =
              \<lparr>status = 500, body = Obj [(''message'', Str ''Something wrong happened'')]\<rparr>)"
proof -
  let ?req = "req\<lparr>user := Some d\<rparr>"
  have u: "user ?req = Some d" and m: "uid d = mentorId ?req"
    using assms(4) by simp_all
  have s: "fails_after_authorization env (scores_request env) req \<Longrightarrow>
            fst (get_summary_scores env req) =
              \<lparr>status = 500, body = Obj [(''message'', Str ''Something wrong happened'')]\<rparr>"
    unfolding get_summary_scores_def route_next [OF assms(1-3)] summary_scores_owner [OF u m]
      fails_after_authorization_def
    by (auto split: sum.splits option.splits if_splits simp add: isl_def)
  have p: "fails_after_authorization env (patterns_request env) req \<Longrightarrow>
            fst (get_summary_patterns env req) =
              \<lparr>status = 500, body = Obj [(''message'', Str ''Something wrong happened'')]\<rparr>"
    unfolding get_summary_patterns_def route_next [OF assms(1-3)] summary_patterns_owner [OF u m]
      fails_after_authorization_def
    by (auto split: sum.splits option.splits if_splits simp add: isl_def)
  from s p show ?thesis by blast
qed

theorem failure_generic_500_witness:
  "authorization (example_request (Some ''Bearer token-m1'') ''m1'' ''t1'') = Some ''Bearer token-m1''
   \<and> startsWith ''Bearer token-m1'' ''Bearer ''
   \<and> verifyIdToken (example_env (Inr (Some ''not json at all''))) (idToken ''Bearer token-m1'') =
       Inr (DecodedIdToken ''m1'')
   \<and> uid (DecodedIdToken ''m1'') = mentorId (example_request (Some ''Bearer token-m1'') ''m1'' ''t1'')
   \<and> fails_after_authorization (example_env (Inr (Some ''not json at all'')))
        (scores_request (example_env (Inr (Some ''not json at all''))))
        (example_request (Some ''Bearer token-m1'') ''m1'' ''t1'')
   \<and> fails_after_authorization (example_env (Inr (Some ''not json at all'')))
        (patterns_request (example_env (Inr (Some ''not json at all''))))
        (example_request (Some ''Bearer token-m1'') ''m1'' ''t1'')
   \<and> fst (get_summary_scores (example_env (Inr (Some ''not json at all'')))
        (example_request (Some ''Bearer token-m1'') ''m1'' ''t1'')) =
       \<lparr>status = 500, body = Obj [(''message'', Str ''Something wrong happened'')]\<rparr>
   \<and> fst (get_summary_patterns (example_env (Inr (Some ''not json at all'')))
        (example_request (Some ''Bearer token-m1'') ''m1'' ''t1'')) =
       \<lparr>status = 500, body = Obj [(''message'', Str ''Something wrong happened'')]\<rparr>"
proof -
  let ?req = "example_request (Some ''Bearer token-m1'') ''m1'' ''t1''"
  let ?env = "example_env (Inr (Some ''not json at all''))"
  have h1: "authorization ?req = Some ''Bearer token-m1''"
    by (simp add: example_request_def)
  have h2: "startsWith ''Bearer token-m1'' ''Bearer ''"
    by (simp add: startsWith_def)
  have h3: "verifyIdToken ?env (idToken ''Bearer token-m1'') = Inr (DecodedIdToken ''m1'')"
    by code_simp
  have h4: "uid (DecodedIdToken ''m1'') = mentorId ?req"
    by (simp add: example_request_def)
  have f1: "fails_after_authorization ?env (scores_request ?env) ?req"
    by code_simp
  have f2: "fails_after_authorization ?env (patterns_request ?env) ?req"
    by code_simp
  show ?thesis
    using h1 h2 h3 h4 f1 f2 failure_generic_500 [OF h1 h2 h3 h4] by blast
qed

text \<open>
  C6, as amended. When the model output is \<open>pre @ {mid} @ suf\<close> with no \<^verbatim>\<open>{\<close> in \<open>pre\<close> and
  no \<^verbatim>\<open>}\<close> in \<open>suf\<close>, so that \<^verbatim>\<open>{mid}\<close> is its substring from the first \<^verbatim>\<open>{\<close> to the last
  \<^verbatim>\<open>}\<close>, and that substring parses to \<open>J\<close>, both routes answer 200 and send the
  serialization \<^verbatim>\<open>JSON.stringify(J)\<close>, whatever \<open>J\<close> is: nothing checks it against a schema.
\<close>

theorem parsed_value_sent_serialized:
  assumes "authorization req = Some h" and "startsWith h ''Bearer ''"
    and "verifyIdToken env (idToken h) = Inr d"
    and "uid d = mentorId req"
    and "incidents_get env (mentorId req) (tutorId req) = Inr docs" and "docs \<noteq> []"
    and "CHR ''{'' \<notin> set pre" and "CHR ''}'' \<notin> set suf"
    and "JSON_parse env (CHR ''{'' # mid @ [CHR ''}'']) = Inr J"
  shows "(generateContent env (scores_request env docs) =
            Inr (Some (pre @ CHR ''{'' # mid @ CHR ''}'' # suf)) \<longrightarrow>
          fst (get_summary_scores env req) =
            \<lparr>status = 200, body = Serialized (JSON_stringify env J)\<rparr>)
       \<and> (generateContent env (patterns_request env docs) =
            Inr (Some (pre @ CHR ''{'' # mid @ CHR ''}'' # suf)) \<longrightarrow>
          fst (get_summary_patterns env req) =
            \<lparr>status = 200, body = Serialized (JSON_stringify env J)\<rparr>)"
proof -
  let ?req = "req\<lparr>user := Some d\<rparr>"
  let ?text = "pre @ CHR ''{'' # mid @ CHR ''}'' # suf"
  have u: "user ?req = Some d" and m: "uid d = mentorId ?req"
    using assms(4) by simp_all
  have g: "incidents_get env (mentorId ?req) (tutorId ?req) = Inr docs"
    using assms(5) by simp
  have x: "extract_json (JSON_parse env) ?text = Inr J"
    by (simp add: extract_json_ordered [OF assms(7,8)] assms(9))
  have s: "fst (get_summary_scores env req) =
      \<lparr>status = 200, body = Serialized (JSON_stringify env J)\<rparr>"
    if "generateContent env (scores_request env docs) = Inr (Some ?text)"
    unfolding get_summary_scores_def route_next [OF assms(1-3)] summary_scores_owner [OF u m] g
    using that assms(6) x by simp
  have p: "fst (get_summary_patterns env req) =
      \<lparr>status = 200, body = Serialized (JSON_stringify env J)\<rparr>"
    if "generateContent env (patterns_request env docs) = Inr (Some ?text)"
    unfolding get_summary_patterns_def route_next [OF assms(1-3)] summary_patterns_owner [OF u m] g
    using that assms(6) x by simp
  from s p show ?thesis by blast
qed

theorem parsed_value_sent_serialized_witness:
  \<open>authorization (example_request (Some ''Bearer token-m1'') ''m1'' ''t1'') = Some ''Bearer token-m1''
   \<and> startsWith ''Bearer token-m1'' ''Bearer ''
   \<and> verifyIdToken (example_env (Inr (Some ''Sure: {"mood":"fine","scores":7} Bye'')))
        (idToken ''Bearer token-m1'') = Inr (DecodedIdToken ''m1'')
   \<and> uid (DecodedIdToken ''m1'') = mentorId (example_request (Some ''Bearer token-m1'') ''m1'' ''t1'')
   \<and> incidents_get (example_env (Inr (Some ''Sure: {"mood":"fine","scores":7} Bye'')))
        (mentorId (example_request (Some ''Bearer token-m1'') ''m1'' ''t1''))
        (tutorId (example_request (Some ''Bearer token-m1'') ''m1'' ''t1'')) =
       Inr [\<lparr>date = None, description = ''Arrived late''\<rparr>,
            \<lparr>date = Some (), description = ''Helped a colleague''\<rparr>]
   \<and> [\<lparr>date = None, description = ''Arrived late''\<rparr>,
       \<lparr>date = Some (), description = ''Helped a colleague''\<rparr>] \<noteq> ([] :: unit incident list)
   \<and> CHR ''{'' \<notin> set ''Sure: ''
   \<and> CHR ''}'' \<notin> set '' Bye''
   \<and> JSON_parse (example_env (Inr (Some ''Sure: {"mood":"fine","scores":7} Bye'')))
        (CHR ''{'' # ''"mood":"fine","scores":7'' @ [CHR ''}'']) =
       Inr (JObject [(''mood'', JString ''fine''), (''scores'', JNumber ''7'')])
   \<and> generateContent (example_env (Inr (Some ''Sure: {"mood":"fine","scores":7} Bye'')))
        (scores_request (example_env (Inr (Some ''Sure: {"mood":"fine","scores":7} Bye'')))
           [\<lparr>date = None, description = ''Arrived late''\<rparr>,
            \<lparr>date = Some (), description = ''Helped a colleague''\<rparr>]) =
       Inr (Some (''Sure: '' @ CHR ''{'' # ''"mood":"fine","scores":7'' @ CHR ''}'' # '' Bye''))
   \<and> generateContent (example_env (Inr (Some ''Sure: {"mood":"fine","scores":7} Bye'')))
        (patterns_request (example_env (Inr (Some ''Sure: {"mood":"fine","scores":7} Bye'')))
           [\<lparr>date = None, description = ''Arrived late''\<rparr>,
            \<lparr>date = Some (), description = ''Helped a colleague''\<rparr>]) =
       Inr (Some (''Sure: '' @ CHR ''{'' # ''"mood":"fine","scores":7'' @ CHR ''}'' # '' Bye''))
   \<and> fst (get_summary_scores (example_env (Inr (Some ''Sure: {"mood":"fine","scores":7} Bye'')))
        (example_request (Some ''Bearer token-m1'') ''m1'' ''t1'')) =
       \<lparr>status = 200, body = Serialized ''{"mood":"fine","scores":7}''\<rparr>
   \<and> fst (get_summary_patterns (example_env (Inr (Some ''Sure: {"mood":"fine","scores":7} Bye'')))
        (example_request (Some ''Bearer token-m1'') ''m1'' ''t1'')) =
       \<lparr>status = 200, body = Serialized ''{"mood":"fine","scores":7}''\<rparr>\<close>
proof -
  let ?env = \<open>example_env (Inr (Some ''Sure: {"mood":"fine","scores":7} Bye''))\<close>
  let ?req = "example_request (Some ''Bearer token-m1'') ''m1'' ''t1''"
  let ?docs = "[\<lparr>date = None, description = ''Arrived late''\<rparr>,
                \<lparr>date = Some (), description = ''Helped a colleague''\<rparr>] :: unit incident list"
  have h1: "authorization ?req = Some ''Bearer token-m1''"
    by (rule example_owner_request)
  have h3: "verifyIdToken ?env (idToken ''Bearer token-m1'') = Inr (DecodedIdToken ''m1'')"
    by (rule example_verified)
  have h4: "uid (DecodedIdToken ''m1'') = mentorId ?req"
    by (simp add: example_request_def)
  have h5: "incidents_get ?env (mentorId ?req) (tutorId ?req) = Inr ?docs"
    by (simp add: example_owner_request example_incidents_t1)
  have h6: "?docs \<noteq> []" by simp
  have h7: "CHR ''{'' \<notin> set ''Sure: ''" by simp
  have h8: "CHR ''}'' \<notin> set '' Bye''" by simp
  have \<open>json_parse (CHR ''{'' # ''"mood":"fine","scores":7'' @ [CHR ''}'']) =
       Inr (JObject [(''mood'', JString ''fine''), (''scores'', JNumber ''7'')])\<close>
    by code_simp
  then have h9: \<open>JSON_parse ?env (CHR ''{'' # ''"mood":"fine","scores":7'' @ [CHR ''}'']) =
       Inr (JObject [(''mood'', JString ''fine''), (''scores'', JNumber ''7'')])\<close>
    by (simp only: example_parser)
  have g1: \<open>generateContent ?env (scores_request ?env ?docs) =
       Inr (Some (''Sure: '' @ CHR ''{'' # ''"mood":"fine","scores":7'' @ CHR ''}'' # '' Bye''))\<close>
    by (simp add: example_reply)
  have g2: \<open>generateContent ?env (patterns_request ?env ?docs) =
       Inr (Some (''Sure: '' @ CHR ''{'' # ''"mood":"fine","scores":7'' @ CHR ''}'' # '' Bye''))\<close>
    by (simp add: example_reply)
  have \<open>json_stringify (JObject [(''mood'', JString ''fine''), (''scores'', JNumber ''7'')]) =
       ''{"mood":"fine","scores":7}''\<close>
    by code_simp
  then have z: \<open>JSON_stringify ?env (JObject [(''mood'', JString ''fine''), (''scores'', JNumber ''7'')]) =
       ''{"mood":"fine","scores":7}''\<close>
    by (simp only: example_serializer)
  note r = parsed_value_sent_serialized [OF h1 startsWith_example h3 h4 h5 h6 h7 h8 h9]
  have s: \<open>fst (get_summary_scores ?env ?req) =
       \<lparr>status = 200, body = Serialized ''{"mood":"fine","scores":7}''\<rparr>\<close>
    using r g1 unfolding z by blast
  have p: \<open>fst (get_summary_patterns ?env ?req) =
       \<lparr>status = 200, body = Serialized ''{"mood":"fine","scores":7}''\<rparr>\<close>
    using r g2 unfolding z by blast
  from h1 startsWith_example h3 h4 h5 h6 h7 h8 h9 g1 g2 s p
  show ?thesis by blast
qed

text \<open>
  C6 as stated, that the body is \<open>J\<close> itself, fails where the serialization changes the
  value: \<^verbatim>\<open>{"n":1e400}\<close> parses to an object whose \<^verbatim>\<open>n\<close> is \<^verbatim>\<open>Infinity\<close>, and the body sent is
  \<^verbatim>\<open>{"n":null}\<close>, which is read back with \<^verbatim>\<open>n\<close> \<^verbatim>\<open>null\<close>.
\<close>

theorem overflowing_number_sent_as_null:
  \<open>extract_json json_parse ''{"n":1e400}'' = Inr (JObject [(''n'', JInfinity)])
   \<and> fst (get_summary_scores (example_env (Inr (Some ''{"n":1e400}'')))
            (example_request (Some ''Bearer token-m1'') ''m1'' ''t1'')) =
       \<lparr>status = 200, body = Serialized ''{"n":null}''\<rparr>
   \<and> fst (get_summary_patterns (example_env (Inr (Some ''{"n":1e400}'')))
            (example_request (Some ''Bearer token-m1'') ''m1'' ''t1'')) =
       \<lparr>status = 200, body = Serialized ''{"n":null}''\<rparr>
   \<and> json_parse ''{"n":null}'' = Inr (JObject [(''n'', JNull)])
   \<and> json_parse ''{"n":null}'' \<noteq> Inr (JObject [(''n'', JInfinity)])\<close>
  by code_simp

text \<open>
  C7. A request with no \<^verbatim>\<open>Authorization\<close> header, or with one that does not start with
  \<^verbatim>\<open>Bearer \<close>, gets 401 and the token verifier is not called; a request whose header has
  the prefix and whose token the verifier rejects gets 403.
\<close>

theorem verifyToken_rejects:
  "((authorization req = None \<or> (\<exists>h. authorization req = Some h \<and> \<not> startsWith h ''Bearer '')) \<longrightarrow>
      get_summary_scores env req =
        (\<lparr>status = 401, body = Obj [(''error'', Str ''Unauthorized: No token provided.'')]\<rparr>, [])
      \<and> get_summary_patterns env req =
        (\<lparr>status = 401, body = Obj [(''error'', Str ''Unauthorized: No token provided.'')]\<rparr>, []))
   \<and> (\<forall>h e. authorization req = Some h \<and> startsWith h ''Bearer ''
          \<and> verifyIdToken env (idToken h) = Inl e \<longrightarrow>
      get_summary_scores env req =
        (\<lparr>status = 403, body = Obj [(''error'', Str ''Forbidden: Invalid token.'')]\<rparr>,
         [VerifyIdToken (idToken h)])
      \<and> get_summary_patterns env req =
        (\<lparr>status = 403, body = Obj [(''error'', Str ''Forbidden: Invalid token.'')]\<rparr>,
         [VerifyIdToken (idToken h)]))"
proof (intro conjI impI allI)
  assume a: "authorization req = None \<or> (\<exists>h. authorization req = Some h \<and> \<not> startsWith h ''Bearer '')"
  show "get_summary_scores env req =
        (\<lparr>status = 401, body = Obj [(''error'', Str ''Unauthorized: No token provided.'')]\<rparr>, [])"
    by (simp add: get_summary_scores_def route_def verifyToken_unauthorized [OF a])
  show "get_summary_patterns env req =
        (\<lparr>status = 401, body = Obj [(''error'', Str ''Unauthorized: No token provided.'')]\<rparr>, [])"
    by (simp add: get_summary_patterns_def route_def verifyToken_unauthorized [OF a])
next
  fix h e
  assume a: "authorization req = Some h \<and> startsWith h ''Bearer '' \<and> verifyIdToken env (idToken h) = Inl e"
  then have v: "verifyToken env req =
           (Inl \<lparr>status = 403, body = Obj [(''error'', Str ''Forbidden: Invalid token.'')]\<rparr>,
            [VerifyIdToken (idToken h)])"
    by (intro verifyToken_invalid) simp_all
  show "get_summary_scores env req =
        (\<lparr>status = 403, body = Obj [(''error'', Str ''Forbidden: Invalid token.'')]\<rparr>,
         [VerifyIdToken (idToken h)])"
    by (simp add: get_summary_scores_def route_def v)
  show "get_summary_patterns env req =
        (\<lparr>status = 403, body = Obj [(''error'', Str ''Forbidden: Invalid token.'')]\<rparr>,
         [VerifyIdToken (idToken h)])"
    by (simp add: get_summary_patterns_def route_def v)
qed

theorem verifyToken_rejects_witness:
  "authorization (example_request (Some ''Basic dXNlcg=='') ''m1'' ''t1'') = Some ''Basic dXNlcg==''
   \<and> \<not> startsWith ''Basic dXNlcg=='' ''Bearer ''
   \<and> get_summary_scores (example_env (Inr None)) (example_request (Some ''Basic dXNlcg=='') ''m1'' ''t1'') =
        (\<lparr>status = 401, body = Obj [(''error'', Str ''Unauthorized: No token provided.'')]\<rparr>, [])
   \<and> get_summary_patterns (example_env (Inr None)) (example_request (Some ''Basic dXNlcg=='') ''m1'' ''t1'') =
        (\<lparr>status = 401, body = Obj [(''error'', Str ''Unauthorized: No token provided.'')]\<rparr>, [])
   \<and> authorization (example_request (Some ''Bearer expired'') ''m1'' ''t1'') = Some ''Bearer expired''
   \<and> startsWith ''Bearer expired'' ''Bearer ''
   \<and> verifyIdToken (example_env (Inr None)) (idToken ''Bearer expired'') =
        Inl ''Decoding Firebase ID token failed''
   \<and> get_summary_scores (example_env (Inr None)) (example_request (Some ''Bearer expired'') ''m1'' ''t1'') =
        (\<lparr>status = 403, body = Obj [(''error'', Str ''Forbidden: Invalid token.'')]\<rparr>,
         [VerifyIdToken (Some ''expired'')])
   \<and> get_summary_patterns (example_env (Inr None)) (example_request (Some ''Bearer expired'') ''m1'' ''t1'') =
        (\<lparr>status = 403, body = Obj [(''error'', Str ''Forbidden: Invalid token.'')]\<rparr>,
         [VerifyIdToken (Some ''expired'')])"
proof -
  let ?env = "example_env (Inr None) :: (unit, json) env"
  let ?r1 = "example_request (Some ''Basic dXNlcg=='') ''m1'' ''t1''"
  let ?r2 = "example_request (Some ''Bearer expired'') ''m1'' ''t1''"
  have a1: "authorization ?r1 = Some ''Basic dXNlcg==''"
    by (simp add: example_request_def)
  have a2: "\<not> startsWith ''Basic dXNlcg=='' ''Bearer ''"
    by (simp add: startsWith_def)
  have b1: "authorization ?r2 = Some ''Bearer expired''"
    by (simp add: example_request_def)
  have b2: "startsWith ''Bearer expired'' ''Bearer ''"
    by (simp add: startsWith_def)
  have b3: "verifyIdToken ?env (idToken ''Bearer expired'') = Inl ''Decoding Firebase ID token failed''"
    by code_simp
  have t: "idToken ''Bearer expired'' = Some ''expired''"
    by code_simp
  have p1: "get_summary_scores ?env ?r1 =
        (\<lparr>status = 401, body = Obj [(''error'', Str ''Unauthorized: No token provided.'')]\<rparr>, [])
      \<and> get_summary_patterns ?env ?r1 =
        (\<lparr>status = 401, body = Obj [(''error'', Str ''Unauthorized: No token provided.'')]\<rparr>, [])"
    using verifyToken_rejects [of ?r1 ?env] a1 a2 by blast
  have p2: "get_summary_scores ?env ?r2 =
        (\<lparr>status = 403, body = Obj [(''error'', Str ''Forbidden: Invalid token.'')]\<rparr>,
         [VerifyIdToken (idToken ''Bearer expired'')])
      \<and> get_summary_patterns ?env ?r2 =
        (\<lparr>status = 403, body = Obj [(''error'', Str ''Forbidden: Invalid token.'')]\<rparr>,
         [VerifyIdToken (idToken ''Bearer expired'')])"
    using verifyToken_rejects [of ?r2 ?env] b1 b2 b3 by blast
  show ?thesis
    using a1 a2 b1 b2 b3 p1 p2 unfolding t by blast
qed

text \<open>
  C8, as amended. For a non-empty incident sequence each handler sends the provider one
  request whose prompt is its fixed template, then the incidents rendered as
  \<^verbatim>\<open><ISO-8601 timestamp or 'unknown date'>: <description>\<close> and joined by newlines, then
  a newline. Both templates forbid summarizing each incident and demand an analysis of
  all incidents as a whole. The template of \<^verbatim>\<open>src/index.ts\<close> states the schema with the
  seven criteria, the 1-5 scale and the neutral default; the template of \<^verbatim>\<open>api/index.ts\<close>
  states the schema of \<^verbatim>\<open>summary\<close>, \<^verbatim>\<open>patterns\<close> and \<^verbatim>\<open>suggestions\<close>, and names no criterion
  and no 1-5 scale.
\<close>

theorem prompt_built_from_incidents:
  assumes "authorization req = Some h" and "startsWith h ''Bearer ''"
    and "verifyIdToken env (idToken h) = Inr d"
    and "uid d = mentorId req"
    and "incidents_get env (mentorId req) (tutorId req) = Inr docs" and "docs \<noteq> []"
  shows \<open>snd (get_summary_scores env req) =
           [VerifyIdToken (idToken h), IncidentsGet (mentorId req) (tutorId req),
            GenerateContent
              \<lparr>model = ''gemini-2.5-flash'', role = ''user'',
               parts_text =
                 scores_template @
                 join (map (\<lambda>i. (case date i of None \<Rightarrow> ''unknown date'' | Some t \<Rightarrow> toISOString env t)
                                 @ '': '' @ description i) docs) ''\<newline>'' @
                 ''\<newline>'',
               responseMimeType = ''application/json'', responseSchema = scores_jsonSchema\<rparr>]
       \<and> snd (get_summary_patterns env req) =
           [VerifyIdToken (idToken h), IncidentsGet (mentorId req) (tutorId req),
            GenerateContent
              \<lparr>model = ''gemini-2.5-flash'', role = ''user'',
               parts_text =
                 patterns_template @
                 join (map (\<lambda>i. (case date i of None \<Rightarrow> ''unknown date'' | Some t \<Rightarrow> toISOString env t)
                                 @ '': '' @ description i) docs) ''\<newline>'' @
                 ''\<newline>'',
               responseMimeType = ''application/json'', responseSchema = patterns_jsonSchema\<rparr>]
       \<and> sublist ''Do NOT summarize each incident individually.'' scores_template
       \<and> sublist ''Analyze ALL incidents AS A WHOLE.'' scores_template
       \<and> list_all (\<lambda>c. sublist (''"'' @ c @ ''": { "score": 1-5, "justification": "Your justification." }'')
                     scores_template) criteria
       \<and> sublist ''Use a 1-5 scale:'' scores_template
       \<and> sublist ''If there is NO INFORMATION, score it as 3 (Neutral) and justify with 'Insufficient information.''
            scores_template
       \<and> sublist ''Your response MUST match this JSON schema:'' scores_template
       \<and> sublist ''"summary": "Your 2-3 sentence summary here."'' scores_template
       \<and> sublist ''"scores": {'' scores_template
       \<and> sublist ''You MUST NOT summarize each incident individually.'' patterns_template
       \<and> sublist ''Analyze ALL incidents AS A WHOLE.'' patterns_template
       \<and> sublist ''"summary": "A 2-3 sentence overall summary of performance."'' patterns_template
       \<and> sublist ''"patterns": ["A list of key behavioral patterns (strengths or weaknesses)."]'' patterns_template
       \<and> sublist ''"suggestions": ["A list of actionable suggestions for improvement (if any)."]'' patterns_template
       \<and> \<not> list_ex (\<lambda>c. sublist c patterns_template) criteria
       \<and> \<not> sublist ''1-5'' patterns_template\<close>
proof -
  let ?req = "req\<lparr>user := Some d\<rparr>"
  have u: "user ?req = Some d" and m: "uid d = mentorId ?req"
    using assms(4) by simp_all
  have g: "incidents_get env (mentorId ?req) (tutorId ?req) = Inr docs"
    using assms(5) by simp
  have s: "snd (get_summary_scores env req) =
      [VerifyIdToken (idToken h), IncidentsGet (mentorId req) (tutorId req),
       GenerateContent (scores_request env docs)]"
    unfolding get_summary_scores_def route_next [OF assms(1-3)] summary_scores_owner [OF u m] g
    using assms(6) by simp
  have p: "snd (get_summary_patterns env req) =
      [VerifyIdToken (idToken h), IncidentsGet (mentorId req) (tutorId req),
       GenerateContent (patterns_request env docs)]"
    unfolding get_summary_patterns_def route_next [OF assms(1-3)] summary_patterns_owner [OF u m] g
    using assms(6) by simp
  have calls: \<open>snd (get_summary_scores env req) =
           [VerifyIdToken (idToken h), IncidentsGet (mentorId req) (tutorId req),
            GenerateContent
              \<lparr>model = ''gemini-2.5-flash'', role = ''user'',
               parts_text =
                 scores_template @
                 join (map (\<lambda>i. (case date i of None \<Rightarrow> ''unknown date'' | Some t \<Rightarrow> toISOString env t)
                                 @ '': '' @ description i) docs) ''\<newline>'' @
                 ''\<newline>'',
               responseMimeType = ''application/json'', responseSchema = scores_jsonSchema\<rparr>]
       \<and> snd (get_summary_patterns env req) =
           [VerifyIdToken (idToken h), IncidentsGet (mentorId req) (tutorId req),
            GenerateContent
              \<lparr>model = ''gemini-2.5-flash'', role = ''user'',
               parts_text =
                 patterns_template @
                 join (map (\<lambda>i. (case date i of None \<Rightarrow> ''unknown date'' | Some t \<Rightarrow> toISOString env t)
                                 @ '': '' @ description i) docs) ''\<newline>'' @
                 ''\<newline>'',
               responseMimeType = ''application/json'', responseSchema = patterns_jsonSchema\<rparr>]\<close>
    unfolding s p scores_request_def patterns_request_def genAIRequest_def scores_prompt_def
      patterns_prompt_def incidentText_fun
    by simp
  from calls scores_template_contents patterns_template_contents patterns_template_no_criteria
  show ?thesis by blast
qed

theorem prompt_built_from_incidents_witness:
  \<open>authorization (example_request (Some ''Bearer token-m1'') ''m1'' ''t1'') = Some ''Bearer token-m1''
   \<and> startsWith ''Bearer token-m1'' ''Bearer ''
   \<and> verifyIdToken (example_env (Inr None)) (idToken ''Bearer token-m1'') = Inr (DecodedIdToken ''m1'')
   \<and> uid (DecodedIdToken ''m1'') = mentorId (example_request (Some ''Bearer token-m1'') ''m1'' ''t1'')
   \<and> incidents_get (example_env (Inr None))
        (mentorId (example_request (Some ''Bearer token-m1'') ''m1'' ''t1''))
        (tutorId (example_request (Some ''Bearer token-m1'') ''m1'' ''t1'')) =
       Inr [\<lparr>date = None, description = ''Arrived late''\<rparr>,
            \<lparr>date = Some (), description = ''Helped a colleague''\<rparr>]
   \<and> [\<lparr>date = None, description = ''Arrived late''\<rparr>,
       \<lparr>date = Some (), description = ''Helped a colleague''\<rparr>] \<noteq> ([] :: unit incident list)
   \<and> snd (get_summary_scores (example_env (Inr None))
            (example_request (Some ''Bearer token-m1'') ''m1'' ''t1'')) =
       [VerifyIdToken (idToken ''Bearer token-m1''), IncidentsGet ''m1'' ''t1'',
        GenerateContent
          \<lparr>model = ''gemini-2.5-flash'', role = ''user'',
           parts_text =
             scores_template @
             ''unknown date: Arrived late\<newline>2024-05-01T09:30:00.000Z: Helped a colleague\<newline>'',
           responseMimeType = ''application/json'', responseSchema = scores_jsonSchema\<rparr>]
   \<and> snd (get_summary_patterns (example_env (Inr None))
            (example_request (Some ''Bearer token-m1'') ''m1'' ''t1'')) =
       [VerifyIdToken (idToken ''Bearer token-m1''), IncidentsGet ''m1'' ''t1'',
        GenerateContent
          \<lparr>model = ''gemini-2.5-flash'', role = ''user'',
           parts_text =
             patterns_template @
             ''unknown date: Arrived late\<newline>2024-05-01T09:30:00.000Z: Helped a colleague\<newline>'',
           responseMimeType = ''application/json'', responseSchema = patterns_jsonSchema\<rparr>]\<close>
proof -
  let ?env = "example_env (Inr None) :: (unit, json) env"
  let ?req = "example_request (Some ''Bearer token-m1'') ''m1'' ''t1''"
  let ?docs = "[\<lparr>date = None, description = ''Arrived late''\<rparr>,
                \<lparr>date = Some (), description = ''Helped a colleague''\<rparr>] :: unit incident list"
  have h1: "authorization ?req = Some ''Bearer token-m1''"
    by (rule example_owner_request)
  have h3: "verifyIdToken ?env (idToken ''Bearer token-m1'') = Inr (DecodedIdToken ''m1'')"
    by (rule example_verified)
  have h4: "uid (DecodedIdToken ''m1'') = mentorId ?req"
    by (simp add: example_request_def)
  have h5: "incidents_get ?env (mentorId ?req) (tutorId ?req) = Inr ?docs"
    by (simp add: example_owner_request example_incidents_t1)
  have h6: "?docs \<noteq> []" by simp
  note r = prompt_built_from_incidents [OF h1 startsWith_example h3 h4 h5 h6]
  have s: \<open>snd (get_summary_scores ?env ?req) =
       [VerifyIdToken (idToken ''Bearer token-m1''), IncidentsGet ''m1'' ''t1'',
        GenerateContent
          \<lparr>model = ''gemini-2.5-flash'', role = ''user'',
           parts_text =
             scores_template @
             ''unknown date: Arrived late\<newline>2024-05-01T09:30:00.000Z: Helped a colleague\<newline>'',
           responseMimeType = ''application/json'', responseSchema = scores_jsonSchema\<rparr>]\<close>
    using r [THEN conjunct1] by (simp add: example_owner_request example_env_def)
  have p: \<open>snd (get_summary_patterns ?env ?req) =
       [VerifyIdToken (idToken ''Bearer token-m1''), IncidentsGet ''m1'' ''t1'',
        GenerateContent
          \<lparr>model = ''gemini-2.5-flash'', role = ''user'',
           parts_text =
             patterns_template @
             ''unknown date: Arrived late\<newline>2024-05-01T09:30:00.000Z: Helped a colleague\<newline>'',
           responseMimeType = ''application/json'', responseSchema = patterns_jsonSchema\<rparr>]\<close>
    using r [THEN conjunct2, THEN conjunct1] by (simp add: example_owner_request example_env_def)
  from h1 startsWith_example h3 h4 h5 h6 s p show ?thesis by blast
qed

text \<open>
  C8 as stated fails for the handler of \<^verbatim>\<open>api/index.ts\<close>: the prompt it sends for two
  incidents contains none of the seven criteria.
\<close>

theorem patterns_prompt_without_criteria:
  \<open>snd (get_summary_patterns (example_env (Inr None))
          (example_request (Some ''Bearer token-m1'') ''m1'' ''t1'')) =
     [VerifyIdToken (idToken ''Bearer token-m1''), IncidentsGet ''m1'' ''t1'',
      GenerateContent
        (patterns_request (example_env (Inr None))
           [\<lparr>date = None, description = ''Arrived late''\<rparr>,
            \<lparr>date = Some (), description = ''Helped a colleague''\<rparr>])]
   \<and> \<not> list_ex
       (\<lambda>c. sublist c
          (parts_text
             (patterns_request (example_env (Inr None))
                [\<lparr>date = None, description = ''Arrived late''\<rparr>,
                 \<lparr>date = Some (), description = ''Helped a colleague''\<rparr>])))
       criteria\<close>
proof -
  let ?env = "example_env (Inr None) :: (unit, json) env"
  let ?req = "example_request (Some ''Bearer token-m1'') ''m1'' ''t1''"
  let ?docs = "[\<lparr>date = None, description = ''Arrived late''\<rparr>,
                \<lparr>date = Some (), description = ''Helped a colleague''\<rparr>] :: unit incident list"
  have h4: "uid (DecodedIdToken ''m1'') = mentorId ?req"
    by (simp add: example_request_def)
  have h5: "incidents_get ?env (mentorId ?req) (tutorId ?req) = Inr ?docs"
    by (simp add: example_owner_request example_incidents_t1)
  have h6: "?docs \<noteq> []" by simp
  have c: "snd (get_summary_patterns ?env ?req) =
     [VerifyIdToken (idToken ''Bearer token-m1''), IncidentsGet ''m1'' ''t1'',
      GenerateContent (patterns_request ?env ?docs)]"
    using patterns_calls [OF example_owner_request(1) startsWith_example example_verified h4 h5 h6]
    by (simp add: example_owner_request)
  have t: \<open>parts_text (patterns_request ?env ?docs) =
           patterns_template @
           ''unknown date: Arrived late\<newline>2024-05-01T09:30:00.000Z: Helped a colleague\<newline>''\<close>
    by (simp add: patterns_request_def genAIRequest_def patterns_prompt_def incidentText_def
        example_env_def)
  have \<open>\<not> list_ex
       (\<lambda>c. sublist c ''unknown date: Arrived late\<newline>2024-05-01T09:30:00.000Z: Helped a colleague\<newline>'')
       criteria\<close>
    by code_simp
  then have n: "\<not> list_ex (\<lambda>c. sublist c (parts_text (patterns_request ?env ?docs))) criteria"
    unfolding t by (rule no_criterion_in_patterns_prompt)
  from c n show ?thesis by blast
qed

text \<open>
  C9, as amended. For every input the two routes make the same calls, up to the prompt
  and the response schema of the provider request. Their responses are equal whenever
  the store is not read (401, 403) and when the store read throws. When the store
  returns no incident each answers 200 with the empty value of its own schema. When it
  returns incidents each response is the same function \<open>respond_to_answer\<close> of the
  provider's answer to its own request.
\<close>

theorem variants_agree:
  "list_all2 same_call (snd (get_summary_scores env req)) (snd (get_summary_patterns env req))
   \<and> (if list_ex is_IncidentsGet (snd (get_summary_scores env req)) then
         (case incidents_get env (mentorId req) (tutorId req) of
            Inl e \<Rightarrow> fst (get_summary_scores env req) = fst (get_summary_patterns env req)
          | Inr docs \<Rightarrow>
              if docs = [] then
                fst (get_summary_scores env req) =
                  \<lparr>status = 200,
                   body = Obj [(''summary'', Str ''No incidents to summarize yet.''),
                               (''scores'', Obj [])]\<rparr>
                \<and> fst (get_summary_patterns env req) =
                  \<lparr>status = 200,
                   body = Obj [(''summary'', Str ''No incidents to summarize yet.''),
                               (''patterns'', Arr []), (''suggestions'', Arr [])]\<rparr>
              else
                fst (get_summary_scores env req) =
                  respond_to_answer env (generateContent env (scores_request env docs))
                \<and> fst (get_summary_patterns env req) =
                  respond_to_answer env (generateContent env (patterns_request env docs)))
       else fst (get_summary_scores env req) = fst (get_summary_patterns env req))"
proof (cases "verifyToken env req")
  case (Pair r calls)
  show ?thesis
  proof (cases r)
    case (Inl res)
    with Pair have c: "calls = [] \<or> (\<exists>t. calls = [VerifyIdToken t])"
      by (auto simp add: verifyToken_def Let_def split: option.splits if_splits sum.splits)
    from Inl Pair have "get_summary_scores env req = (res, calls)"
        and "get_summary_patterns env req = (res, calls)"
      by (simp_all add: get_summary_scores_def get_summary_patterns_def route_def)
    with c show ?thesis
      by (auto simp add: same_call_refl)
  next
    case (Inr req')
    with Pair have v: "verifyToken env req = (Inr req', calls)" by simp
    then obtain h d where a: "authorization req = Some h" "startsWith h ''Bearer ''"
        "verifyIdToken env (idToken h) = Inr d"
      by (rule verifyToken_Inr)
    let ?req = "req\<lparr>user := Some d\<rparr>"
    have u: "user ?req = Some d" by simp
    show ?thesis
    proof (cases "uid d = mentorId req")
      case False
      then have m: "uid d \<noteq> mentorId ?req" by simp
      show ?thesis
        unfolding get_summary_scores_def get_summary_patterns_def route_next [OF a]
          summary_scores_not_owner [OF u m] summary_patterns_not_owner [OF u m]
        by (simp add: same_call_refl)
    next
      case True
      then have m: "uid d = mentorId ?req" by simp
      show ?thesis
      proof (cases "incidents_get env (mentorId req) (tutorId req)")
        case (Inl e)
        then have g: "incidents_get env (mentorId ?req) (tutorId ?req) = Inl e" by simp
        show ?thesis
          unfolding get_summary_scores_def get_summary_patterns_def route_next [OF a]
            summary_scores_owner [OF u m] summary_patterns_owner [OF u m] g
          using Inl by (simp add: same_call_refl)
      next
        case (Inr docs)
        then have g: "incidents_get env (mentorId ?req) (tutorId ?req) = Inr docs" by simp
        show ?thesis
          unfolding get_summary_scores_def get_summary_patterns_def route_next [OF a]
            summary_scores_owner [OF u m] summary_patterns_owner [OF u m] g
          using Inr
          by (simp add: same_call_refl same_call_requests respond_to_answer_def catch_block_def
              split: sum.splits option.splits)
      qed
    qed
  qed
qed

theorem variants_agree_witness:
  \<open>list_ex is_IncidentsGet
     (snd (get_summary_scores (example_env (Inr (Some ''{"summary":"ok"}'')))
             (example_request (Some ''Bearer token-m1'') ''m1'' ''t1'')))
   \<and> incidents_get (example_env (Inr (Some ''{"summary":"ok"}'')))
        (mentorId (example_request (Some ''Bearer token-m1'') ''m1'' ''t1''))
        (tutorId (example_request (Some ''Bearer token-m1'') ''m1'' ''t1'')) =
       Inr [\<lparr>date = None, description = ''Arrived late''\<rparr>,
            \<lparr>date = Some (), description = ''Helped a colleague''\<rparr>]
   \<and> list_all2 same_call
        (snd (get_summary_scores (example_env (Inr (Some ''{"summary":"ok"}'')))
               (example_request (Some ''Bearer token-m1'') ''m1'' ''t1'')))
        (snd (get_summary_patterns (example_env (Inr (Some ''{"summary":"ok"}'')))
               (example_request (Some ''Bearer token-m1'') ''m1'' ''t1'')))
   \<and> fst (get_summary_scores (example_env (Inr (Some ''{"summary":"ok"}'')))
               (example_request (Some ''Bearer token-m1'') ''m1'' ''t1'')) =
       \<lparr>status = 200, body = Serialized ''{"summary":"ok"}''\<rparr>
   \<and> fst (get_summary_patterns (example_env (Inr (Some ''{"summary":"ok"}'')))
               (example_request (Some ''Bearer token-m1'') ''m1'' ''t1'')) =
       \<lparr>status = 200, body = Serialized ''{"summary":"ok"}''\<rparr>\<close>
proof -
  let ?env = \<open>example_env (Inr (Some ''{"summary":"ok"}''))\<close>
  let ?req = "example_request (Some ''Bearer token-m1'') ''m1'' ''t1''"
  let ?docs = "[\<lparr>date = None, description = ''Arrived late''\<rparr>,
                \<lparr>date = Some (), description = ''Helped a colleague''\<rparr>] :: unit incident list"
  have c: "list_ex is_IncidentsGet (snd (get_summary_scores ?env ?req))"
    by code_simp
  have g: "incidents_get ?env (mentorId ?req) (tutorId ?req) = Inr ?docs"
    by (simp add: example_owner_request example_incidents_t1)
  have a: \<open>respond_to_answer ?env (Inr (Some ''{"summary":"ok"}'')) =
       \<lparr>status = 200, body = Serialized ''{"summary":"ok"}''\<rparr>\<close>
    by code_simp
  note r = variants_agree [of ?env ?req]
  have l: "list_all2 same_call (snd (get_summary_scores ?env ?req))
      (snd (get_summary_patterns ?env ?req))"
    using r by (rule conjunct1)
  have "fst (get_summary_scores ?env ?req) =
          respond_to_answer ?env (generateContent ?env (scores_request ?env ?docs))
      \<and> fst (get_summary_patterns ?env ?req) =
          respond_to_answer ?env (generateContent ?env (patterns_request ?env ?docs))"
    using r [THEN conjunct2] c by (simp add: g)
  then have s: \<open>fst (get_summary_scores ?env ?req) =
        \<lparr>status = 200, body = Serialized ''{"summary":"ok"}''\<rparr>\<close>
    and p: \<open>fst (get_summary_patterns ?env ?req) =
        \<lparr>status = 200, body = Serialized ''{"summary":"ok"}''\<rparr>\<close>
    by (simp_all only: example_reply a)
  from c g l s p show ?thesis by blast
qed

text \<open>
  C9 as stated fails on the empty short-circuit: for a store without incidents the two
  routes answer with different bodies.
\<close>

theorem empty_bodies_differ:
  "fst (get_summary_scores (example_env (Inr None))
          (example_request (Some ''Bearer token-m1'') ''m1'' ''t0'')) =
     \<lparr>status = 200,
      body = Obj [(''summary'', Str ''No incidents to summarize yet.''), (''scores'', Obj [])]\<rparr>
   \<and> fst (get_summary_patterns (example_env (Inr None))
          (example_request (Some ''Bearer token-m1'') ''m1'' ''t0'')) =
     \<lparr>status = 200,
      body = Obj [(''summary'', Str ''No incidents to summarize yet.''),
                  (''patterns'', Arr []), (''suggestions'', Arr [])]\<rparr>
   \<and> fst (get_summary_scores (example_env (Inr None))
          (example_request (Some ''Bearer token-m1'') ''m1'' ''t0'')) \<noteq>
     fst (get_summary_patterns (example_env (Inr None))
          (example_request (Some ''Bearer token-m1'') ''m1'' ''t0''))"
  by code_simp

text \<open>
  C10. A model output \<open>a @ } @ mid @ { @ b\<close> with no \<^verbatim>\<open>{\<close> in \<open>a\<close> and \<open>mid\<close> and no \<^verbatim>\<open>}\<close> in
  \<open>mid\<close> and \<open>b\<close> contains both characters, its last \<^verbatim>\<open>}\<close> before its first \<^verbatim>\<open>{\<close>, and every
  such output has this form (\<open>reversed_shape\<close>). The first index found is the one of the \<^verbatim>\<open>{\<close>, the last
  the one of the \<^verbatim>\<open>}\<close>, \<^verbatim>\<open>substring\<close> on them returns \<open>mid\<close>, the text strictly between the
  two characters; the extraction never fails with \<open>NoJsonFound\<close>, a failure of the
  parser on \<open>mid\<close> is reported as \<open>MalformedJson\<close>, and both routes then answer 500 with
  the generic body.
\<close>

theorem reversed_braces_between_parsed:
  assumes "authorization req = Some h" and "startsWith h ''Bearer ''"
    and "verifyIdToken env (idToken h) = Inr d"
    and "uid d = mentorId req"
    and "incidents_get env (mentorId req) (tutorId req) = Inr docs" and "docs \<noteq> []"
    and "CHR ''{'' \<notin> set a" and "CHR ''{'' \<notin> set mid"
    and "CHR ''}'' \<notin> set mid" and "CHR ''}'' \<notin> set b"
    and "text = a @ CHR ''}'' # mid @ CHR ''{'' # b"
  shows "indexOf text (CHR ''{'') = int (length a) + 1 + int (length mid)
       \<and> lastIndexOf text (CHR ''}'') = int (length a)
       \<and> substring text (indexOf text (CHR ''{'')) (lastIndexOf text (CHR ''}'') + 1) = mid
       \<and> extract_json (JSON_parse env) text \<noteq> Inl NoJsonFound
       \<and> extract_json (JSON_parse env) text =
           (case JSON_parse env mid of
              Inl e \<Rightarrow> Inl (MalformedJson e)
            | Inr v \<Rightarrow> Inr v)
       \<and> (isl (JSON_parse env mid)
            \<and> generateContent env (scores_request env docs) = Inr (Some text) \<longrightarrow>
          fst (get_summary_scores env req) =
            \<lparr>status = 500, body = Obj [(''message'', Str ''Something wrong happened'')]\<rparr>)
       \<and> (isl (JSON_parse env mid)
            \<and> generateContent env (patterns_request env docs) = Inr (Some text) \<longrightarrow>
          fst (get_summary_patterns env req) =
            \<lparr>status = 500, body = Obj [(''message'', Str ''Something wrong happened'')]\<rparr>)"
proof -
  let ?req = "req\<lparr>user := Some d\<rparr>"
  have u: "user ?req = Some d" and m: "uid d = mentorId ?req"
    using assms(4) by simp_all
  have g: "incidents_get env (mentorId ?req) (tutorId ?req) = Inr docs"
    using assms(5) by simp
  note ix = reversed_indices [OF assms(7-10)]
  have i: "indexOf text (CHR ''{'') = int (length a) + 1 + int (length mid)"
    unfolding assms(11) by (rule ix(1))
  have j: "lastIndexOf text (CHR ''}'') = int (length a)"
    unfolding assms(11) by (rule ix(2))
  have sub: "substring text (indexOf text (CHR ''{'')) (lastIndexOf text (CHR ''}'') + 1) = mid"
    unfolding i j unfolding assms(11) by (rule ix(3))
  have e: "extract_json (JSON_parse env) text =
           (case JSON_parse env mid of
              Inl e \<Rightarrow> Inl (MalformedJson e)
            | Inr v \<Rightarrow> Inr v)"
    unfolding assms(11) by (rule extract_json_reversed [OF assms(7-10)])
  have n: "extract_json (JSON_parse env) text \<noteq> Inl NoJsonFound"
    unfolding e by (simp split: sum.splits)
  have t: "text \<noteq> []"
    unfolding assms(11) by simp
  have s: "fst (get_summary_scores env req) =
            \<lparr>status = 500, body = Obj [(''message'', Str ''Something wrong happened'')]\<rparr>"
    if "isl (JSON_parse env mid)"
      and "generateContent env (scores_request env docs) = Inr (Some text)"
    unfolding get_summary_scores_def route_next [OF assms(1-3)] summary_scores_owner [OF u m] g
    using that assms(6) t by (auto simp add: e isl_def)
  have p: "fst (get_summary_patterns env req) =
            \<lparr>status = 500, body = Obj [(''message'', Str ''Something wrong happened'')]\<rparr>"
    if "isl (JSON_parse env mid)"
      and "generateContent env (patterns_request env docs) = Inr (Some text)"
    unfolding get_summary_patterns_def route_next [OF assms(1-3)] summary_patterns_owner [OF u m] g
    using that assms(6) t by (auto simp add: e isl_def)
  from i j sub n e s p show ?thesis by blast
qed

theorem reversed_braces_between_parsed_witness:
  "authorization (example_request (Some ''Bearer token-m1'') ''m1'' ''t1'') = Some ''Bearer token-m1''
   \<and> startsWith ''Bearer token-m1'' ''Bearer ''
   \<and> verifyIdToken (example_env (Inr (Some ''Done} and {more''))) (idToken ''Bearer token-m1'') =
       Inr (DecodedIdToken ''m1'')
   \<and> uid (DecodedIdToken ''m1'') = mentorId (example_request (Some ''Bearer token-m1'') ''m1'' ''t1'')
   \<and> incidents_get (example_env (Inr (Some ''Done} and {more'')))
        (mentorId (example_request (Some ''Bearer token-m1'') ''m1'' ''t1''))
        (tutorId (example_request (Some ''Bearer token-m1'') ''m1'' ''t1'')) =
       Inr [\<lparr>date = None, description = ''Arrived late''\<rparr>,
            \<lparr>date = Some (), description = ''Helped a colleague''\<rparr>]
   \<and> [\<lparr>date = None, description = ''Arrived late''\<rparr>,
       \<lparr>date = Some (), description = ''Helped a colleague''\<rparr>] \<noteq> ([] :: unit incident list)
   \<and> CHR ''{'' \<notin> set ''Done'' \<and> CHR ''{'' \<notin> set '' and ''
   \<and> CHR ''}'' \<notin> set '' and '' \<and> CHR ''}'' \<notin> set ''more''
   \<and> ''Done} and {more'' = ''Done'' @ CHR ''}'' # '' and '' @ CHR ''{'' # ''more''
   \<and> isl (JSON_parse (example_env (Inr (Some ''Done} and {more''))) '' and '')
   \<and> generateContent (example_env (Inr (Some ''Done} and {more'')))
        (scores_request (example_env (Inr (Some ''Done} and {more'')))
           [\<lparr>date = None, description = ''Arrived late''\<rparr>,
            \<lparr>date = Some (), description = ''Helped a colleague''\<rparr>]) =
       Inr (Some ''Done} and {more'')
   \<and> generateContent (example_env (Inr (Some ''Done} and {more'')))
        (patterns_request (example_env (Inr (Some ''Done} and {more'')))
           [\<lparr>date = None, description = ''Arrived late''\<rparr>,
            \<lparr>date = Some (), description = ''Helped a colleague''\<rparr>]) =
       Inr (Some ''Done} and {more'')
   \<and> indexOf ''Done} and {more'' (CHR ''{'') = 10
   \<and> lastIndexOf ''Done} and {more'' (CHR ''}'') = 4
   \<and> substring ''Done} and {more'' 10 (4 + 1) = '' and ''
   \<and> extract_json (JSON_parse (example_env (Inr (Some ''Done} and {more'')))) ''Done} and {more'' =
       Inl (MalformedJson ''SyntaxError'')
   \<and> fst (get_summary_scores (example_env (Inr (Some ''Done} and {more'')))
        (example_request (Some ''Bearer token-m1'') ''m1'' ''t1'')) =
       \<lparr>status = 500, body = Obj [(''message'', Str ''Something wrong happened'')]\<rparr>
   \<and> fst (get_summary_patterns (example_env (Inr (Some ''Done} and {more'')))
        (example_request (Some ''Bearer token-m1'') ''m1'' ''t1'')) =
       \<lparr>status = 500, body = Obj [(''message'', Str ''Something wrong happened'')]\<rparr>"
proof -
  let ?env = "example_env (Inr (Some ''Done} and {more''))"
  let ?req = "example_request (Some ''Bearer token-m1'') ''m1'' ''t1''"
  let ?docs = "[\<lparr>date = None, description = ''Arrived late''\<rparr>,
                \<lparr>date = Some (), description = ''Helped a colleague''\<rparr>] :: unit incident list"
  have h1: "authorization ?req = Some ''Bearer token-m1''"
    by (rule example_owner_request)
  have h3: "verifyIdToken ?env (idToken ''Bearer token-m1'') = Inr (DecodedIdToken ''m1'')"
    by (rule example_verified)
  have h4: "uid (DecodedIdToken ''m1'') = mentorId ?req"
    by (simp add: example_request_def)
  have h5: "incidents_get ?env (mentorId ?req) (tutorId ?req) = Inr ?docs"
    by (simp add: example_owner_request example_incidents_t1)
  have h6: "?docs \<noteq> []" by simp
  have h7: "CHR ''{'' \<notin> set ''Done''" by simp
  have h8: "CHR ''{'' \<notin> set '' and ''" by simp
  have h9: "CHR ''}'' \<notin> set '' and ''" by simp
  have h10: "CHR ''}'' \<notin> set ''more''" by simp
  have h11: "''Done} and {more'' = ''Done'' @ CHR ''}'' # '' and '' @ CHR ''{'' # ''more''"
    by simp
  have v: "json_parse '' and '' = Inl ''SyntaxError''" by code_simp
  then have f: "isl (JSON_parse ?env '' and '')"
    by (simp add: example_parser)
  have g1: "generateContent ?env (scores_request ?env ?docs) = Inr (Some ''Done} and {more'')"
    by (simp only: example_reply)
  have g2: "generateContent ?env (patterns_request ?env ?docs) = Inr (Some ''Done} and {more'')"
    by (simp only: example_reply)
  note r = reversed_braces_between_parsed [OF h1 startsWith_example h3 h4 h5 h6 h7 h8 h9 h10 h11]
  have i: "indexOf ''Done} and {more'' (CHR ''{'') = 10"
    using r by simp
  have j: "lastIndexOf ''Done} and {more'' (CHR ''}'') = 4"
    using r by simp
  have sub: "substring ''Done} and {more'' 10 (4 + 1) = '' and ''"
    using r unfolding i j by blast
  have x: "extract_json (JSON_parse ?env) ''Done} and {more'' = Inl (MalformedJson ''SyntaxError'')"
    using r by (simp add: example_parser v)
  have s: "fst (get_summary_scores ?env ?req) =
       \<lparr>status = 500, body = Obj [(''message'', Str ''Something wrong happened'')]\<rparr>"
    using r f g1 by blast
  have p: "fst (get_summary_patterns ?env ?req) =
       \<lparr>status = 500, body = Obj [(''message'', Str ''Something wrong happened'')]\<rparr>"
    using r f g2 by blast
  from h1 startsWith_example h3 h4 h5 h6 h7 h8 h9 h10 h11 f g1 g2 i j sub x s p
  show ?thesis by blast
qed

end
